theory Spec2Isabelle
  imports Complex_Main
begin

section \<open>Python values: errors and strings\<close>

text \<open>
  Every exception of the source is a value. A function that can raise returns
  \<open>py_error + 'a\<close> (\<open>Inl\<close> the exception); a function of the source that returns
  \<open>Optional[float]\<close> and catches its own exceptions returns an \<open>option\<close>.
  \<open>SystemExit\<close> is what argparse's \<open>parser.error\<close> raises.
\<close>

datatype py_error =
  ValueError | TypeError | ZeroDivisionError | OverflowError | UnboundLocalError | KeyError
  | SystemExit

text \<open>\<open>str.lower\<close> and \<open>str.upper\<close> on ASCII text (instrument names are ASCII).\<close>

definition lower_char :: "char \<Rightarrow> char" where
  "lower_char c =
     (let n = (of_char c :: nat) in if 65 \<le> n \<and> n \<le> 90 then char_of (n + 32) else c)"

definition upper_char :: "char \<Rightarrow> char" where
  "upper_char c =
     (let n = (of_char c :: nat) in if 97 \<le> n \<and> n \<le> 122 then char_of (n - 32) else c)"

definition lower :: "string \<Rightarrow> string" where
  "lower s = map lower_char s"

definition upper :: "string \<Rightarrow> string" where
  "upper s = map upper_char s"

text \<open>Python's \<open>sub in s\<close> on strings.\<close>

fun contains :: "string \<Rightarrow> string \<Rightarrow> bool" where
  "contains sub [] = (sub = [])"
| "contains sub (c # cs) = (take (length sub) (c # cs) = sub \<or> contains sub cs)"

text \<open>\<open>s.split('-')[-1]\<close>: what follows the last hyphen (all of \<open>s\<close> when it has none).\<close>

definition split_last :: "string \<Rightarrow> string" where
  "split_last s = rev (takeWhile (\<lambda>c. c \<noteq> CHR ''-'') (rev s))"

definition is_digit :: "char \<Rightarrow> bool" where
  "is_digit c = (48 \<le> (of_char c :: nat) \<and> (of_char c :: nat) \<le> 57)"

definition digit_val :: "char \<Rightarrow> nat" where
  "digit_val c = (of_char c :: nat) - 48"

definition is_upper_letter :: "char \<Rightarrow> bool" where
  "is_upper_letter c = (65 \<le> (of_char c :: nat) \<and> (of_char c :: nat) \<le> 90)"

section \<open>Calendar dates\<close>

text \<open>
  A \<open>datetime\<close> at midnight is its proleptic Gregorian ordinal (\<open>date.toordinal\<close>:
  1 January of year 1 is day 1), so that \<open>(d1 - d2).days\<close> is the difference of two
  ordinals.
\<close>

definition is_leap :: "nat \<Rightarrow> bool" where
  "is_leap y = (y mod 4 = 0 \<and> (y mod 100 \<noteq> 0 \<or> y mod 400 = 0))"

definition days_in_month :: "nat \<Rightarrow> nat \<Rightarrow> nat" where
  "days_in_month y m =
     (if m = 2 then (if is_leap y then 29 else 28)
      else if m = 4 \<or> m = 6 \<or> m = 9 \<or> m = 11 then 30 else 31)"

definition days_before_year :: "nat \<Rightarrow> nat" where
  "days_before_year y = (let p = y - 1 in 365 * p + p div 4 - p div 100 + p div 400)"

definition days_before_month :: "nat \<Rightarrow> nat \<Rightarrow> nat" where
  "days_before_month y m =
     [0, 0, 31, 59, 90, 120, 151, 181, 212, 243, 273, 304, 334] ! m
     + (if 2 < m \<and> is_leap y then 1 else 0)"

definition toordinal :: "nat \<Rightarrow> nat \<Rightarrow> nat \<Rightarrow> int" where
  "toordinal y m d = int (days_before_year y + days_before_month y m + d)"

definition month_of_abbr :: "string \<Rightarrow> nat option" where
  "month_of_abbr m =
     map_of [(''JAN'', 1), (''FEB'', 2), (''MAR'', 3), (''APR'', 4), (''MAY'', 5), (''JUN'', 6),
             (''JUL'', 7), (''AUG'', 8), (''SEP'', 9), (''OCT'', 10), (''NOV'', 11), (''DEC'', 12)]
       (upper m)"

text \<open>
  The day field of \<open>datetime.strptime\<close>'s \<open>%d\<close>: two digits from 01 to 31, or one
  digit from 1 to 9 (also after a blank). The month name follows, so a digit that is
  left over makes the whole parse fail.
\<close>

fun parse_day :: "string \<Rightarrow> (nat \<times> string) option" where
  "parse_day (a # b # rest) =
     (if is_digit a \<and> is_digit b then
        (let v = 10 * digit_val a + digit_val b
         in if 1 \<le> v \<and> v \<le> 31 then Some (v, rest) else None)
      else if is_digit a \<and> a \<noteq> CHR ''0'' then Some (digit_val a, b # rest)
      else if a = CHR '' '' \<and> is_digit b \<and> b \<noteq> CHR ''0'' then Some (digit_val b, rest)
      else None)"
| "parse_day _ = None"

text \<open>
  \<open>datetime.strptime(s, "%d%b%y")\<close> in the C locale: day, month abbreviation in any
  case, two-digit year (00 to 68 are 2000 to 2068, 69 to 99 are 1969 to 1999), nothing
  else; a day the month does not have is a \<open>ValueError\<close> as well.
\<close>

definition strptime_dby :: "string \<Rightarrow> py_error + int" where
  "strptime_dby s =
     (case parse_day s of
        None \<Rightarrow> Inl ValueError
      | Some (d, r) \<Rightarrow>
          if length r \<noteq> 5 then Inl ValueError
          else (case month_of_abbr (take 3 r) of
                  None \<Rightarrow> Inl ValueError
                | Some m \<Rightarrow>
                    if is_digit (r ! 3) \<and> is_digit (r ! 4) then
                      (let yy = 10 * digit_val (r ! 3) + digit_val (r ! 4);
                           y = (if yy \<le> 68 then 2000 + yy else 1900 + yy)
                       in if d \<le> days_in_month y m then Inr (toordinal y m d)
                          else Inl ValueError)
                    else Inl ValueError))"

text \<open>\<open>utils.convert_future_name_to_date\<close>.\<close>

definition convert_future_name_to_date :: "string \<Rightarrow> py_error + int" where
  "convert_future_name_to_date future_str = strptime_dby (split_last future_str)"

section \<open>Market data: the ticker\<close>

text \<open>
  The venue's ticker as \<open>api_requests.fetch_data\<close> delivers it: the mark price of an
  instrument name, or \<open>None\<close> when the request fails or carries no price.
\<close>

type_synonym ticker = "string \<Rightarrow> real option"

text \<open>The currencies whose forwards are dated futures (pricing.py 69 and 74, api_requests.py 149).\<close>

definition dated_currencies :: "string list" where
  "dated_currencies = [''eth'', ''btc'', ''paxg_usdc'']"

text \<open>\<open>api_requests.get_underlying_price\<close>.\<close>

definition get_underlying_price :: "ticker \<Rightarrow> string \<Rightarrow> string \<Rightarrow> real option" where
  "get_underlying_price tk currency expiry_code =
     (if lower currency \<notin> set dated_currencies then tk (currency @ ''-PERPETUAL'')
      else tk (currency @ ''-'' @ expiry_code))"

text \<open>\<open>utils.map_currency\<close>: the currency a contract is settled in.\<close>

definition map_currency :: "string \<Rightarrow> string" where
  "map_currency currency = (if contains ''USDC'' currency then ''USDC'' else currency)"

section \<open>The synthetic future (pricing.create_synthetic_future_price)\<close>

text \<open>Line 108: the list comprehension raises at the first name that is not a date.\<close>

fun convert_all :: "string list \<Rightarrow> py_error + (string \<times> int) list" where
  "convert_all [] = Inr []"
| "convert_all (f # fs) =
     (case convert_future_name_to_date f of
        Inl e \<Rightarrow> Inl e
      | Inr d \<Rightarrow> (case convert_all fs of Inl e \<Rightarrow> Inl e | Inr ds \<Rightarrow> Inr ((f, d) # ds)))"

text \<open>The four variables the loop of lines 117 to 138 assigns, and the branch that did.\<close>

datatype branch = Extrapolate_before | Extrapolate_after | Interpolate

record surrounding =
  prev_expiry_code :: string
  next_expiry_code :: string
  prev_expiry_date :: int
  next_expiry_date :: int

definition surround :: "string \<times> int \<Rightarrow> string \<times> int \<Rightarrow> surrounding" where
  "surround p n =
     \<lparr>prev_expiry_code = split_last (fst p), next_expiry_code = split_last (fst n),
      prev_expiry_date = snd p, next_expiry_date = snd n\<rparr>"

text \<open>
  The loop \<open>for i in range(1, len(existing_dates))\<close>, over the indices still to visit.
  The body runs only when the list has two entries or more, so the indices 0, 1, -2
  and -1 are in range wherever they are read. No branch taken on any index leaves the
  variables unassigned: \<open>None\<close>.
\<close>

fun find_surrounding ::
  "(string \<times> int) list \<Rightarrow> int \<Rightarrow> nat list \<Rightarrow> (branch \<times> surrounding) option" where
  "find_surrounding existing_dates target_date [] = None"
| "find_surrounding existing_dates target_date (i # rest) =
     (if target_date < snd (existing_dates ! 0) then
        Some (Extrapolate_before, surround (existing_dates ! 0) (existing_dates ! 1))
      else if target_date > snd (last existing_dates) then
        Some (Extrapolate_after,
              surround (existing_dates ! (length existing_dates - 2)) (last existing_dates))
      else if snd (existing_dates ! i) > target_date then
        Some (Interpolate, surround (existing_dates ! (i - 1)) (existing_dates ! i))
      else find_surrounding existing_dates target_date rest)"

text \<open>Lines 113 to 138: sort by date (a stable sort, as \<open>list.sort\<close> is), then search.\<close>

definition sorted_dates :: "(string \<times> int) list \<Rightarrow> (string \<times> int) list" where
  "sorted_dates existing_dates = sort_key snd existing_dates"

definition select_surrounding ::
  "(string \<times> int) list \<Rightarrow> int \<Rightarrow> (branch \<times> surrounding) option" where
  "select_surrounding existing_dates target_date =
     (let ed = sorted_dates existing_dates
      in find_surrounding ed target_date [1..<length ed])"

text \<open>
  Line 149. Python evaluates the quotient of the two day counts first (a
  \<open>ZeroDivisionError\<close> when the two futures share a date), then the difference of the
  two prices (a \<open>TypeError\<close> when a price is \<open>None\<close>).
\<close>

definition interpolate_price ::
  "real option \<Rightarrow> real option \<Rightarrow> int \<Rightarrow> int \<Rightarrow> py_error + real" where
  "interpolate_price prev_future_price next_future_price time_diff_target_prev time_diff_next_prev =
     (if time_diff_next_prev = 0 then Inl ZeroDivisionError
      else (case (prev_future_price, next_future_price) of
              (Some p, Some n) \<Rightarrow>
                Inr (p + (real_of_int time_diff_target_prev / real_of_int time_diff_next_prev) * (n - p))
            | _ \<Rightarrow> Inl TypeError))"

definition create_synthetic_future_price ::
  "ticker \<Rightarrow> string \<Rightarrow> string \<Rightarrow> string list \<Rightarrow> py_error + real" where
  "create_synthetic_future_price tk currency expiry_code existing_futures =
     (case convert_all existing_futures of
        Inl e \<Rightarrow> Inl e
      | Inr existing_dates \<Rightarrow>
          (case convert_future_name_to_date (currency @ ''-'' @ expiry_code) of
             Inl e \<Rightarrow> Inl e
           | Inr target_date \<Rightarrow>
               (case select_surrounding existing_dates target_date of
                  None \<Rightarrow> Inl UnboundLocalError
                | Some (b, s) \<Rightarrow>
                    interpolate_price
                      (get_underlying_price tk currency (prev_expiry_code s))
                      (get_underlying_price tk currency (next_expiry_code s))
                      (target_date - prev_expiry_date s)
                      (next_expiry_date s - prev_expiry_date s))))"

section \<open>Floating-point values\<close>

text \<open>
  The values of numpy arithmetic: a finite number, an infinity or not-a-number. numpy
  does not raise on a division by zero or on a logarithm or root outside its domain: it
  warns and returns an infinity or a NaN. The operations \<open>fadd\<close>, \<open>fsub\<close>,
  \<open>fmul\<close>, \<open>fdiv\<close>, \<open>np_log\<close>, \<open>np_sqrt\<close> and \<open>np_exp\<close> serve the pricing
  model, whose values go through the logarithm, the exponential and the normal
  distribution function of the libraries, which no standard fixes to the last bit:
  their finite results are exact reals here; the rounding of every operation to a
  double, the overflow of a finite result to an infinity and the sign of a zero are left
  out. So a finite value of the pricing model here is the value of the code only where
  the arithmetic of the code is exact (as on the whole numbers of the examples); what
  does not depend on this idealisation is whether a function raises, returns \<open>None\<close>
  or returns a value. The rounded operations further down serve the interpolator.
\<close>

datatype flt = Fin real | PInf | NInf | NaN

fun fneg :: "flt \<Rightarrow> flt" where
  "fneg (Fin a) = Fin (- a)"
| "fneg PInf = NInf"
| "fneg NInf = PInf"
| "fneg NaN = NaN"

fun fadd :: "flt \<Rightarrow> flt \<Rightarrow> flt" where
  "fadd (Fin a) (Fin b) = Fin (a + b)"
| "fadd NaN _ = NaN"
| "fadd _ NaN = NaN"
| "fadd PInf NInf = NaN"
| "fadd NInf PInf = NaN"
| "fadd PInf _ = PInf"
| "fadd NInf _ = NInf"
| "fadd _ PInf = PInf"
| "fadd _ NInf = NInf"

definition fsub :: "flt \<Rightarrow> flt \<Rightarrow> flt" where
  "fsub a b = fadd a (fneg b)"

text \<open>The infinity of the sign of \<open>s\<close>; NaN for zero (\<open>0 * inf\<close>, \<open>0 / 0\<close>).\<close>

definition signed_inf :: "real \<Rightarrow> flt" where
  "signed_inf s = (if 0 < s then PInf else if s < 0 then NInf else NaN)"

fun fmul :: "flt \<Rightarrow> flt \<Rightarrow> flt" where
  "fmul (Fin a) (Fin b) = Fin (a * b)"
| "fmul NaN _ = NaN"
| "fmul _ NaN = NaN"
| "fmul (Fin a) PInf = signed_inf a"
| "fmul (Fin a) NInf = signed_inf (- a)"
| "fmul PInf (Fin b) = signed_inf b"
| "fmul NInf (Fin b) = signed_inf (- b)"
| "fmul PInf PInf = PInf"
| "fmul NInf NInf = PInf"
| "fmul PInf NInf = NInf"
| "fmul NInf PInf = NInf"

fun fdiv :: "flt \<Rightarrow> flt \<Rightarrow> flt" where
  "fdiv (Fin a) (Fin b) = (if b = 0 then signed_inf a else Fin (a / b))"
| "fdiv NaN _ = NaN"
| "fdiv _ NaN = NaN"
| "fdiv (Fin a) _ = Fin 0"
| "fdiv PInf (Fin b) = (if 0 \<le> b then PInf else NInf)"
| "fdiv NInf (Fin b) = (if 0 \<le> b then NInf else PInf)"
| "fdiv _ _ = NaN"

fun np_log :: "flt \<Rightarrow> flt" where
  "np_log (Fin a) = (if 0 < a then Fin (ln a) else if a = 0 then NInf else NaN)"
| "np_log PInf = PInf"
| "np_log _ = NaN"

fun np_sqrt :: "flt \<Rightarrow> flt" where
  "np_sqrt (Fin a) = (if 0 \<le> a then Fin (sqrt a) else NaN)"
| "np_sqrt PInf = PInf"
| "np_sqrt _ = NaN"

fun np_exp :: "flt \<Rightarrow> flt" where
  "np_exp (Fin a) = Fin (exp a)"
| "np_exp PInf = PInf"
| "np_exp NInf = Fin 0"
| "np_exp NaN = NaN"

text \<open>
  \<open>round(x, 4)\<close>: to the nearest multiple of 1/10000, a tie to the even one. The
  code rounds a double (the scaled value is itself rounded before the tie is decided),
  the model the exact value.
\<close>

definition round_half_even :: "real \<Rightarrow> int" where
  "round_half_even y =
     (let f = \<lfloor>y\<rfloor>; r = y - of_int f
      in if r < 1/2 then f else if 1/2 < r then f + 1 else if even f then f else f + 1)"

fun round4 :: "flt \<Rightarrow> flt" where
  "round4 (Fin a) = Fin (of_int (round_half_even (a * 10000)) / 10000)"
| "round4 v = v"

text \<open>
  The double nearest to a real number, a tie to the even significand: 53 significant
  bits, the exponent not below -1022 (below it the doubles are \<open>2 powr - 1074\<close> apart).
\<close>

definition double_ulp :: "real \<Rightarrow> real" where
  "double_ulp x = 2 powr (real_of_int (max \<lfloor>log 2 \<bar>x\<bar>\<rfloor> (- 1022)) - 52)"

definition round_double :: "real \<Rightarrow> real" where
  "round_double x =
     (if x = 0 then 0
      else real_of_int (round_half_even (x / double_ulp x)) * double_ulp x)"

text \<open>
  \<open>a / b\<close> for two Python ints: the double nearest to the quotient (the division of
  ints is correctly rounded), \<open>ZeroDivisionError\<close> for a zero divisor and
  \<open>OverflowError\<close> for a quotient beyond the doubles.
\<close>

definition int_true_divide :: "int \<Rightarrow> int \<Rightarrow> py_error + real" where
  "int_true_divide a b =
     (if b = 0 then Inl ZeroDivisionError
      else (let q = round_double (real_of_int a / real_of_int b)
            in if 2 ^ 1024 \<le> \<bar>q\<bar> then Inl OverflowError else Inr q))"

text \<open>\<open>int(x)\<close> for a float: the whole part, cut towards zero.\<close>

definition py_int :: "real \<Rightarrow> int" where
  "py_int x = (if 0 \<le> x then \<lfloor>x\<rfloor> else \<lceil>x\<rceil>)"

text \<open>
  The four operations of numpy on doubles are those of IEEE 754: each returns the
  double nearest to the exact result, or an infinity when that is beyond the doubles.
  They are modelled bit for bit (but for the sign of a zero), for the code that uses
  nothing else: the interpolator. An argument \<open>Fin a\<close> stands for the double \<open>a\<close>.
\<close>

definition is_double :: "real \<Rightarrow> bool" where
  "is_double x = (round_double x = x \<and> \<bar>x\<bar> < 2 ^ 1024)"

definition to_double :: "real \<Rightarrow> flt" where
  "to_double x =
     (let r = round_double x
      in if 2 ^ 1024 \<le> r then PInf else if r \<le> - (2 ^ 1024) then NInf else Fin r)"

fun rounded :: "flt \<Rightarrow> flt" where
  "rounded (Fin r) = to_double r"
| "rounded v = v"

definition dadd :: "flt \<Rightarrow> flt \<Rightarrow> flt" where
  "dadd a b = rounded (fadd a b)"

definition dsub :: "flt \<Rightarrow> flt \<Rightarrow> flt" where
  "dsub a b = rounded (fsub a b)"

definition dmul :: "flt \<Rightarrow> flt \<Rightarrow> flt" where
  "dmul a b = rounded (fmul a b)"

definition ddiv :: "flt \<Rightarrow> flt \<Rightarrow> flt" where
  "ddiv a b = rounded (fdiv a b)"

text \<open>\<open>np.sign\<close>, \<open>np.abs\<close>, and the comparisons \<open>!=\<close> and \<open><\<close>: a NaN differs from
  everything and is less than nothing.\<close>

fun np_sign :: "flt \<Rightarrow> flt" where
  "np_sign (Fin a) = Fin (sgn a)"
| "np_sign PInf = Fin 1"
| "np_sign NInf = Fin (- 1)"
| "np_sign NaN = NaN"

fun np_abs :: "flt \<Rightarrow> flt" where
  "np_abs (Fin a) = Fin \<bar>a\<bar>"
| "np_abs NaN = NaN"
| "np_abs v = PInf"

definition np_ne :: "flt \<Rightarrow> flt \<Rightarrow> bool" where
  "np_ne a b = (a = NaN \<or> b = NaN \<or> a \<noteq> b)"

fun np_less :: "flt \<Rightarrow> flt \<Rightarrow> bool" where
  "np_less NaN b = False"
| "np_less a NaN = False"
| "np_less (Fin a) (Fin b) = (a < b)"
| "np_less a NInf = False"
| "np_less NInf b = True"
| "np_less PInf b = False"
| "np_less a PInf = True"

text \<open>
  A volatility reaches the pricing model either as a Python float (the quoted
  \<open>mark_iv / 100\<close> of a strike on the grid) or as a numpy value (what the
  interpolator returned for a strike off the grid). The two differ in \<open>iv ** 2\<close>:
  the power of a Python float raises \<open>OverflowError\<close> when the result is beyond the
  doubles, numpy's returns an infinity with a warning. For a double \<open>v\<close> the square is
  beyond the doubles exactly when \<open>2 ^ 512 \<le> \<bar>v\<bar>\<close>: the square of the largest double
  below \<open>2 ^ 512\<close> is below the largest double.
\<close>

datatype volatility = Python_float real | Numpy_float flt

fun vol_value :: "volatility \<Rightarrow> flt" where
  "vol_value (Python_float v) = Fin v"
| "vol_value (Numpy_float v) = v"

fun square_overflows :: "volatility \<Rightarrow> bool" where
  "square_overflows (Python_float v) = (2 ^ 512 \<le> \<bar>v\<bar>)"
| "square_overflows (Numpy_float v) = False"

section \<open>The standard normal distribution (scipy.stats.norm.cdf)\<close>

text \<open>
  \<open>gauss_area x\<close> is the integral of \<open>exp (- t\<^sup>2 / 2)\<close> from 0 to \<open>x\<close>, as its power
  series; \<open>gauss_half\<close> is its supremum, the integral from 0 to infinity. The
  distribution function is the mass to the left of \<open>x\<close> over the whole mass.
\<close>

definition gauss_term :: "real \<Rightarrow> nat \<Rightarrow> real" where
  "gauss_term x n = (- 1) ^ n * x ^ (2 * n + 1) / (2 ^ n * fact n * real (2 * n + 1))"

definition gauss_area :: "real \<Rightarrow> real" where
  "gauss_area x = (\<Sum>n. gauss_term x n)"

definition gauss_half :: real where
  "gauss_half = Sup (range gauss_area)"

definition Phi :: "real \<Rightarrow> real" where
  "Phi x = (1 + gauss_area x / gauss_half) / 2"

fun norm_cdf :: "flt \<Rightarrow> flt" where
  "norm_cdf (Fin a) = Fin (Phi a)"
| "norm_cdf PInf = Fin 1"
| "norm_cdf NInf = Fin 0"
| "norm_cdf NaN = NaN"

section \<open>The pricing model (pricing.price_black_76)\<close>

text \<open>
  \<open>F\<close> and \<open>K\<close> are Python floats, \<open>T\<close> is what
  \<open>convert_expiration_to_years\<close> returned: a float or \<open>None\<close>. Inside the \<open>try\<close>,
  four things raise: an option type that is neither call nor put (\<open>ValueError\<close>),
  the Python division \<open>F / K\<close> by zero (\<open>ZeroDivisionError\<close>), the power
  \<open>iv ** 2\<close> of a Python float beyond the doubles (\<open>OverflowError\<close>), and the
  product with a \<open>T\<close> that is \<open>None\<close> (\<open>TypeError\<close>). The products and the quotient
  of floats and everything after \<open>np.log\<close> do not raise. The \<open>except\<close> turns every
  exception into \<open>None\<close>.
\<close>

definition d1_of :: "real \<Rightarrow> real \<Rightarrow> real \<Rightarrow> flt \<Rightarrow> flt" where
  "d1_of F K T iv =
     fdiv (fadd (np_log (Fin (F / K))) (fmul (fmul (Fin 0.5) (fmul iv iv)) (Fin T)))
          (fmul iv (np_sqrt (Fin T)))"

definition d2_of :: "real \<Rightarrow> real \<Rightarrow> real \<Rightarrow> flt \<Rightarrow> flt" where
  "d2_of F K T iv = fsub (d1_of F K T iv) (fmul iv (np_sqrt (Fin T)))"

definition price_black_76 ::
  "real \<Rightarrow> real \<Rightarrow> real option \<Rightarrow> volatility \<Rightarrow> string \<Rightarrow> flt option" where
  "price_black_76 F K T_opt iv option_type =
     (if option_type \<noteq> ''call'' \<and> option_type \<noteq> ''put'' then None
      else if K = 0 then None
      else if square_overflows iv then None
      else (case T_opt of
              None \<Rightarrow> None
            | Some T \<Rightarrow>
                (let d1 = d1_of F K T (vol_value iv); d2 = d2_of F K T (vol_value iv)
                 in if option_type = ''call'' then
                      Some (fmul (np_exp (Fin (- 0 * T)))
                              (fsub (fmul (Fin F) (norm_cdf d1)) (fmul (Fin K) (norm_cdf d2))))
                    else
                      Some (fmul (np_exp (Fin (- 0 * T)))
                              (fsub (fmul (Fin K) (norm_cdf (fneg d2)))
                                    (fmul (Fin F) (norm_cdf (fneg d1))))))))"

section \<open>Time to expiry (utils.convert_expiration_to_years)\<close>

text \<open>
  \<open>re.match(r"(\d{1,2})([A-Z]{3})(\d{2})", s)\<close>: one or two digits, three capital
  letters, two digits, at the start of \<open>s\<close>; what follows is ignored. When \<open>s\<close>
  starts with two digits the day is both of them (a single digit would leave a digit
  where a letter must stand).
\<close>

definition match_tail :: "string \<Rightarrow> string \<Rightarrow> (string \<times> string \<times> string) option" where
  "match_tail day r =
     (if 5 \<le> length r \<and> list_all is_upper_letter (take 3 r) \<and> is_digit (r ! 3) \<and> is_digit (r ! 4)
      then Some (day, take 3 r, [r ! 3, r ! 4]) else None)"

fun match_expiration :: "string \<Rightarrow> (string \<times> string \<times> string) option" where
  "match_expiration (a # b # r) =
     (if is_digit a \<and> is_digit b then match_tail [a, b] r
      else if is_digit a then match_tail [a] (b # r)
      else None)"
| "match_expiration _ = None"

text \<open>\<open>f"{int(day):02d}"\<close> for a day of one or two digits.\<close>

definition day_02d :: "string \<Rightarrow> string" where
  "day_02d day = (if length day = 1 then CHR ''0'' # day else day)"

text \<open>
  \<open>now\<close> is \<open>datetime.now(timezone.utc)\<close> in seconds since midnight before day 1 (the
  scale of \<open>toordinal\<close>); the expiry is at 08:00 UTC of its day. \<open>None\<close> is the result
  of the \<open>except\<close> branch: no match, no such date, or an expiry in the past.
\<close>

definition convert_expiration_to_years :: "real \<Rightarrow> string \<Rightarrow> real option" where
  "convert_expiration_to_years now expiration =
     (case match_expiration (upper expiration) of
        None \<Rightarrow> None
      | Some (day, month, year) \<Rightarrow>
          (case strptime_dby (day_02d day @ month @ year) of
             Inl e \<Rightarrow> None
           | Inr expiration_date \<Rightarrow>
               (let delta_seconds = real_of_int (expiration_date * 86400 + 8 * 3600) - now
                in if delta_seconds < 0 then None
                   else Some (delta_seconds / (365 * 24 * 3600)))))"

section \<open>Pricing one option (pricing.price_option)\<close>

text \<open>
  Lines 69 to 77: the forward price, fetched or synthesised. \<open>Inl\<close> is an exception of
  \<open>create_synthetic_future_price\<close>, \<open>Inr None\<close> a fetch that brought no price.
\<close>

definition resolve_future_price ::
  "ticker \<Rightarrow> string \<Rightarrow> string \<Rightarrow> string list \<Rightarrow> py_error + real option" where
  "resolve_future_price tk currency expiry_code existing_futures =
     (let future_name =
            (if lower currency \<notin> set dated_currencies then currency @ ''-PERPETUAL''
             else currency @ ''-'' @ expiry_code)
      in if future_name \<notin> set existing_futures \<and> lower currency \<in> set dated_currencies then
           (case create_synthetic_future_price tk currency expiry_code existing_futures of
              Inl e \<Rightarrow> Inl e
            | Inr p \<Rightarrow> Inr (Some p))
         else Inr (get_underlying_price tk currency expiry_code))"

definition price_option ::
  "ticker \<Rightarrow> real \<Rightarrow> string \<Rightarrow> string \<Rightarrow> real \<Rightarrow> string \<Rightarrow> volatility \<Rightarrow> string list \<Rightarrow>
   flt option" where
  "price_option tk now currency expiry_code strike option_type iv existing_futures =
     (if option_type \<noteq> ''call'' \<and> option_type \<noteq> ''put'' then None
      else
        (let time_to_expiry = convert_expiration_to_years now expiry_code
         in case resolve_future_price tk currency expiry_code existing_futures of
              Inl e \<Rightarrow> None
            | Inr None \<Rightarrow> None
            | Inr (Some future_price) \<Rightarrow>
                price_black_76 future_price strike time_to_expiry iv option_type))"

section \<open>The implied-volatility curve (pricing.iv_interpolator)\<close>

text \<open>
  A dictionary from strike to (implied volatility, mark price) is an association list
  in insertion order; its keys are distinct.
\<close>

type_synonym strike_dict = "(real \<times> (real \<times> real)) list"

text \<open>
  \<open>scipy.interpolate.PchipInterpolator(x, y, extrapolate=True)\<close>, a class of the
  library, on lists of doubles. The constructor refuses fewer than two points, lists of
  different lengths and abscissae that do not increase strictly, each with a
  \<open>ValueError\<close>. \<open>hk\<close> are the spacings and \<open>mk\<close> the secant slopes. The slope at an
  inner knot is zero where the secants on its two sides differ in sign or one is zero,
  and their weighted harmonic mean otherwise; at the two ends it is the three-point
  estimate \<open>pchip_edge_case\<close>; with two points both slopes are the secant's.
\<close>

definition pchip_edge_case :: "flt \<Rightarrow> flt \<Rightarrow> flt \<Rightarrow> flt \<Rightarrow> flt" where
  "pchip_edge_case h0 h1 m0 m1 =
     (let d = ddiv (dsub (dmul (dadd (dmul (Fin 2) h0) h1) m0) (dmul h0 m1)) (dadd h0 h1);
          mask = np_ne (np_sign d) (np_sign m0);
          mask2 = (np_ne (np_sign m0) (np_sign m1) \<and>
                   np_less (dmul (Fin 3) (np_abs m0)) (np_abs d))
      in if mask then Fin 0
         else if mask2 then dmul (Fin 3) m0
         else d)"

definition pchip_interior :: "flt \<Rightarrow> flt \<Rightarrow> flt \<Rightarrow> flt \<Rightarrow> flt" where
  "pchip_interior h_prev h_next m_prev m_next =
     (if np_ne (np_sign m_next) (np_sign m_prev) \<or> m_next = Fin 0 \<or> m_prev = Fin 0 then Fin 0
      else (let w1 = dadd (dmul (Fin 2) h_next) h_prev;
                w2 = dadd h_next (dmul (Fin 2) h_prev);
                whmean = ddiv (dadd (ddiv w1 m_prev) (ddiv w2 m_next)) (dadd w1 w2)
            in ddiv (Fin 1) whmean))"

definition spacings :: "real list \<Rightarrow> flt list" where
  "spacings xs = map (\<lambda>i. dsub (Fin (xs ! Suc i)) (Fin (xs ! i))) [0..<length xs - 1]"

definition secants :: "real list \<Rightarrow> real list \<Rightarrow> flt list" where
  "secants xs ys =
     map (\<lambda>i. ddiv (dsub (Fin (ys ! Suc i)) (Fin (ys ! i))) (spacings xs ! i))
       [0..<length xs - 1]"

definition find_derivatives :: "real list \<Rightarrow> real list \<Rightarrow> flt list" where
  "find_derivatives xs ys =
     (let hk = spacings xs;
          mk = secants xs ys;
          n = length xs
      in if n = 2 then [mk ! 0, mk ! 0]
         else pchip_edge_case (hk ! 0) (hk ! 1) (mk ! 0) (mk ! 1)
              # map (\<lambda>k. pchip_interior (hk ! (k - 1)) (hk ! k) (mk ! (k - 1)) (mk ! k)) [1..<n - 1]
              @ [pchip_edge_case (hk ! (n - 2)) (hk ! (n - 3)) (mk ! (n - 2)) (mk ! (n - 3))])"

text \<open>
  The interval of \<open>x\<close>: the one with \<open>xs ! i \<le> x < xs ! Suc i\<close>, the first one left of
  all knots, the last one from the last knot on.
\<close>

fun find_interval :: "real list \<Rightarrow> real \<Rightarrow> nat" where
  "find_interval (a # b # c # rest) x =
     (if x < b then 0 else Suc (find_interval (b # c # rest) x))"
| "find_interval _ x = 0"

text \<open>
  The four coefficients of the cubic of interval \<open>i\<close>, highest power first, as
  \<open>CubicHermiteSpline\<close> computes them; the last one is the ordinate of the left knot.
\<close>

definition hermite_coefficients ::
  "real list \<Rightarrow> real list \<Rightarrow> flt list \<Rightarrow> nat \<Rightarrow> flt \<times> flt \<times> flt \<times> flt" where
  "hermite_coefficients xs ys dk i =
     (let dx = dsub (Fin (xs ! Suc i)) (Fin (xs ! i));
          slope = ddiv (dsub (Fin (ys ! Suc i)) (Fin (ys ! i))) dx;
          t = ddiv (dsub (dadd (dk ! i) (dk ! Suc i)) (dmul (Fin 2) slope)) dx
      in (ddiv t dx, dsub (ddiv (dsub slope (dk ! i)) dx) t, dk ! i, Fin (ys ! i)))"

text \<open>
  The value of a cubic at the offset \<open>s\<close> from the left knot of its interval, as the
  library sums it: the constant term first, each term the coefficient times the power
  of \<open>s\<close> (times the factor 1 of the derivative of order 0), the powers by repeated
  products.
\<close>

definition evaluate_poly1 :: "flt \<Rightarrow> flt \<times> flt \<times> flt \<times> flt \<Rightarrow> flt" where
  "evaluate_poly1 s c =
     (case c of (c0, c1, c2, c3) \<Rightarrow>
        (let res0 = dadd (Fin 0) (dmul (dmul c3 (Fin 1)) (Fin 1));
             z1 = dmul (Fin 1) s;
             res1 = dadd res0 (dmul (dmul c2 z1) (Fin 1));
             z2 = dmul z1 s;
             res2 = dadd res1 (dmul (dmul c1 z2) (Fin 1));
             z3 = dmul z2 s
         in dadd res2 (dmul (dmul c0 z3) (Fin 1))))"

text \<open>
  The curve: the cubic of the interval of \<open>x\<close>; left of the first knot and right of the
  last the cubic of the first and of the last interval goes on.
\<close>

definition hermite_eval :: "real list \<Rightarrow> real list \<Rightarrow> flt list \<Rightarrow> real \<Rightarrow> flt" where
  "hermite_eval xs ys dk x =
     (let i = find_interval xs x
      in evaluate_poly1 (dsub (Fin x) (Fin (xs ! i))) (hermite_coefficients xs ys dk i))"

fun strictly_increasing :: "real list \<Rightarrow> bool" where
  "strictly_increasing (a # b # rest) = (a < b \<and> strictly_increasing (b # rest))"
| "strictly_increasing _ = True"

definition PchipInterpolator :: "real list \<Rightarrow> real list \<Rightarrow> py_error + (real \<Rightarrow> flt)" where
  "PchipInterpolator xs ys =
     (if length xs < 2 then Inl ValueError
      else if length xs \<noteq> length ys then Inl ValueError
      else if \<not> strictly_increasing xs then Inl ValueError
      else Inr (hermite_eval xs ys (find_derivatives xs ys)))"

text \<open>
  \<open>sorted(strike_iv.items())\<close> orders the entries by strike (the keys are distinct, so
  the values never decide).
\<close>

definition iv_interpolator :: "strike_dict \<Rightarrow> py_error + (real \<Rightarrow> flt)" where
  "iv_interpolator strike_iv =
     (let sorted_strikes_ivs = sort_key fst strike_iv;
          strikes = map fst sorted_strikes_ivs;
          implied_vols = map (\<lambda>e. fst (snd e)) sorted_strikes_ivs
      in PchipInterpolator strikes implied_vols)"

text \<open>
  The two lists that \<open>iv_interpolator\<close> hands to the constructor, and the cubic of
  interval \<open>i\<close> of the curve it returns. A cubic is finite when its three higher
  coefficients are numbers (no overflow on the way to them).
\<close>

definition sorted_strikes :: "strike_dict \<Rightarrow> real list" where
  "sorted_strikes strike_iv = map fst (sort_key fst strike_iv)"

definition sorted_vols :: "strike_dict \<Rightarrow> real list" where
  "sorted_vols strike_iv = map (\<lambda>e. fst (snd e)) (sort_key fst strike_iv)"

definition curve_coefficients :: "strike_dict \<Rightarrow> nat \<Rightarrow> flt \<times> flt \<times> flt \<times> flt" where
  "curve_coefficients strike_iv i =
     hermite_coefficients (sorted_strikes strike_iv) (sorted_vols strike_iv)
       (find_derivatives (sorted_strikes strike_iv) (sorted_vols strike_iv)) i"

fun is_finite :: "flt \<Rightarrow> bool" where
  "is_finite (Fin a) = True"
| "is_finite v = False"

definition finite_cubic :: "flt \<times> flt \<times> flt \<times> flt \<Rightarrow> bool" where
  "finite_cubic c = (case c of (c0, c1, c2, c3) \<Rightarrow> is_finite c0 \<and> is_finite c1 \<and> is_finite c2)"

section \<open>One strike (main.process_strike)\<close>

record result_row =
  call_mark_price :: "flt option"
  deribit_call_mark_price :: "real option"
  put_mark_price :: "flt option"
  deribit_put_mark_price :: "real option"

text \<open>\<open>pricing.normalize_usd_price_to_currency\<close>: numpy divides, so a zero index price
  gives an infinity or a NaN.\<close>

definition normalize_usd_price_to_currency :: "flt option \<Rightarrow> real option \<Rightarrow> flt option" where
  "normalize_usd_price_to_currency price index_price =
     (case (price, index_price) of
        (Some p, Some i) \<Rightarrow> Some (round4 (fdiv p (Fin i)))
      | _ \<Rightarrow> None)"

text \<open>\<open>round(price, 4)\<close> of lines 52 and 53: \<open>None\<close> has no \<open>__round__\<close>.\<close>

definition round_price :: "flt option \<Rightarrow> py_error + flt option" where
  "round_price price = (case price of None \<Rightarrow> Inl TypeError | Some p \<Rightarrow> Inr (Some (round4 p)))"

text \<open>
  Lines 28 to 39: the volatilities and the quoted prices of the strike. A strike of
  the standard grid that the dictionaries of this cycle do not hold is a \<open>KeyError\<close>;
  calling an interpolator that was not built (\<open>None\<close>) is a \<open>TypeError\<close>. The quoted
  volatility is a Python float, the interpolated one a numpy value.
\<close>

definition strike_inputs ::
  "real \<Rightarrow> real list \<Rightarrow> (real \<Rightarrow> flt) option \<Rightarrow> (real \<Rightarrow> flt) option \<Rightarrow>
   strike_dict \<Rightarrow> strike_dict \<Rightarrow>
   py_error + (volatility \<times> volatility \<times> real option \<times> real option)" where
  "strike_inputs strike standard_strikes call_iv_fn put_iv_fn calls_strike_iv puts_strike_iv =
     (if strike \<in> set standard_strikes then
        (case map_of calls_strike_iv strike of
           None \<Rightarrow> Inl KeyError
         | Some (call_iv, call_act) \<Rightarrow>
             (case map_of puts_strike_iv strike of
                None \<Rightarrow> Inl KeyError
              | Some (put_iv, put_act) \<Rightarrow>
                  Inr (Python_float call_iv, Python_float put_iv, Some call_act, Some put_act)))
      else
        (case (call_iv_fn, put_iv_fn) of
           (Some cf, Some pf) \<Rightarrow>
             Inr (Numpy_float (cf strike), Numpy_float (pf strike), None, None)
         | _ \<Rightarrow> Inl TypeError))"

definition process_strike ::
  "ticker \<Rightarrow> real \<Rightarrow> string \<Rightarrow> real \<Rightarrow> string \<Rightarrow> real list \<Rightarrow>
   (real \<Rightarrow> flt) option \<Rightarrow> (real \<Rightarrow> flt) option \<Rightarrow> strike_dict \<Rightarrow> strike_dict \<Rightarrow>
   real option \<Rightarrow> string list \<Rightarrow> py_error + result_row" where
  "process_strike tk now currency strike expiry_code standard_strikes call_iv_fn put_iv_fn
     calls_strike_iv puts_strike_iv index_price existing_futures =
     (case strike_inputs strike standard_strikes call_iv_fn put_iv_fn calls_strike_iv puts_strike_iv of
        Inl e \<Rightarrow> Inl e
      | Inr (call_iv, put_iv, call_mark_price_act, put_mark_price_act) \<Rightarrow>
          (let call_pred = price_option tk now currency expiry_code strike ''call'' call_iv existing_futures;
               put_pred = price_option tk now currency expiry_code strike ''put'' put_iv existing_futures
           in if lower currency \<in> set [''eth'', ''btc''] then
                Inr \<lparr>call_mark_price = normalize_usd_price_to_currency call_pred index_price,
                     deribit_call_mark_price = call_mark_price_act,
                     put_mark_price = normalize_usd_price_to_currency put_pred index_price,
                     deribit_put_mark_price = put_mark_price_act\<rparr>
              else
                (case round_price call_pred of
                   Inl e \<Rightarrow> Inl e
                 | Inr c \<Rightarrow>
                     (case round_price put_pred of
                        Inl e \<Rightarrow> Inl e
                      | Inr p \<Rightarrow>
                          Inr \<lparr>call_mark_price = c,
                               deribit_call_mark_price = call_mark_price_act,
                               put_mark_price = p,
                               deribit_put_mark_price = put_mark_price_act\<rparr>))))"

section \<open>The run (main.main_loop and the script)\<close>

text \<open>
  What the venue answers during a run. \<open>w_grid w 0\<close> is the answer to
  \<open>get_strike_iv_price_dict\<close> before the loop and \<open>w_grid w k\<close> the one of cycle
  \<open>k\<close> (\<open>Inl\<close> when the function raises, as it does when it iterates over a
  response that is \<open>None\<close>, or when \<open>main_loop\<close> cannot unpack its result);
  \<open>w_futures\<close> is the answer to \<open>get_existing_futures\<close>; the index price,
  the ticker and the clock are those of cycle \<open>k\<close>, the same for all its strikes.
\<close>

record world =
  w_grid :: "nat \<Rightarrow> py_error + (strike_dict \<times> strike_dict)"
  w_futures :: "py_error + string list"
  w_index :: "nat \<Rightarrow> real option"
  w_ticker :: "nat \<Rightarrow> ticker"
  w_now :: "nat \<Rightarrow> real"

type_synonym output_dict = "(real \<times> result_row) list"

text \<open>\<open>output_dict[strike] = row\<close>.\<close>

fun dict_set :: "real \<Rightarrow> result_row \<Rightarrow> output_dict \<Rightarrow> output_dict" where
  "dict_set k v [] = [(k, v)]"
| "dict_set k v ((k', v') # rest) =
     (if k = k' then (k, v) # rest else (k', v') # dict_set k v rest)"

text \<open>
  Lines 105 to 122: the tasks of one cycle. The first exception of a task leaves
  \<open>asyncio.gather\<close> and nothing in \<open>main_loop\<close> catches it. The event loop starts
  the tasks in list order and runs each one up to its first suspension, which is the
  \<open>gather\<close> of line 45; so the lines 28 to 39 of every task run, in list order, before
  line 47 of any task, and an exception of those lines (\<open>first_input_error\<close>) is the
  first one. After line 45 the only thing that raises is the \<open>round\<close> of lines 52 and
  53, always with a \<open>TypeError\<close>, whichever task reaches it first; \<open>collect_rows\<close>
  takes the tasks in list order there (the order of the keys of the dictionary, which
  in the code is the order in which the tasks finish, is not modelled).
\<close>

fun first_input_error :: "(real \<Rightarrow> py_error + 'a) \<Rightarrow> real list \<Rightarrow> py_error option" where
  "first_input_error inputs [] = None"
| "first_input_error inputs (strike # rest) =
     (case inputs strike of
        Inl e \<Rightarrow> Some e
      | Inr v \<Rightarrow> first_input_error inputs rest)"

fun collect_rows ::
  "(real \<Rightarrow> py_error + result_row) \<Rightarrow> real list \<Rightarrow> output_dict \<Rightarrow> py_error + output_dict" where
  "collect_rows task [] output = Inr output"
| "collect_rows task (strike # rest) output =
     (case task strike of
        Inl e \<Rightarrow> Inl e
      | Inr row \<Rightarrow> collect_rows task rest (dict_set strike row output))"

definition process_strikes ::
  "(real \<Rightarrow> py_error + 'a) \<Rightarrow> (real \<Rightarrow> py_error + result_row) \<Rightarrow> real list \<Rightarrow>
   py_error + output_dict" where
  "process_strikes inputs task strikes =
     (case first_input_error inputs strikes of
        Some e \<Rightarrow> Inl e
      | None \<Rightarrow> collect_rows task strikes [])"

text \<open>Lines 88 to 122: one cycle, up to the dictionary that \<open>utils.save\<close> receives.\<close>

definition run_cycle ::
  "world \<Rightarrow> nat \<Rightarrow> string \<Rightarrow> string \<Rightarrow> real list \<Rightarrow> real list \<Rightarrow> bool \<Rightarrow> string list \<Rightarrow>
   py_error + output_dict" where
  "run_cycle w k currency expiry_code strikes standard_strikes iv_interpolation_needed existing_futures =
     (case w_grid w k of
        Inl e \<Rightarrow> Inl e
      | Inr (call_dict, put_dict) \<Rightarrow>
          (let inputs = (\<lambda>call_iv_fn put_iv_fn strike.
                 strike_inputs strike standard_strikes call_iv_fn put_iv_fn call_dict put_dict);
               task = (\<lambda>call_iv_fn put_iv_fn strike.
                 process_strike (w_ticker w k) (w_now w k) currency strike expiry_code
                   standard_strikes call_iv_fn put_iv_fn call_dict put_dict (w_index w k)
                   existing_futures)
           in if iv_interpolation_needed then
                (case iv_interpolator call_dict of
                   Inl e \<Rightarrow> Inl e
                 | Inr cf \<Rightarrow>
                     (case iv_interpolator put_dict of
                        Inl e \<Rightarrow> Inl e
                      | Inr pf \<Rightarrow>
                          process_strikes (inputs (Some cf) (Some pf)) (task (Some cf) (Some pf))
                            strikes))
              else process_strikes (inputs None None) (task None None) strikes))"

text \<open>
  The loop over the cycles, with the dictionaries saved so far (the output file). The
  result is the exception that ended the run, if any, and what was saved.
\<close>

fun run_cycles ::
  "(nat \<Rightarrow> py_error + output_dict) \<Rightarrow> nat list \<Rightarrow> output_dict list \<Rightarrow>
   py_error option \<times> output_dict list" where
  "run_cycles cyc [] saved = (None, saved)"
| "run_cycles cyc (k # ks) saved =
     (case cyc k of
        Inl e \<Rightarrow> (Some e, saved)
      | Inr output \<Rightarrow> run_cycles cyc ks (saved @ [output]))"

text \<open>
  Line 80, \<open>int(t1 / t2)\<close>, comes after the two fetches; the flag of lines 81 to 85
  is set once, from the grid fetched before the loop.
\<close>

definition main_loop ::
  "world \<Rightarrow> string \<Rightarrow> string \<Rightarrow> int \<Rightarrow> int \<Rightarrow> real list \<Rightarrow> py_error option \<times> output_dict list" where
  "main_loop w currency expiry_code t1 t2 strikes =
     (case w_grid w 0 of
        Inl e \<Rightarrow> (Some e, [])
      | Inr (call_dict, put_dict) \<Rightarrow>
          (let standard_strikes = map fst call_dict
           in case w_futures w of
                Inl e \<Rightarrow> (Some e, [])
              | Inr existing_futures \<Rightarrow>
                  (case int_true_divide t1 t2 of
                     Inl e \<Rightarrow> (Some e, [])
                   | Inr ratio \<Rightarrow>
                       (let number_of_iterations = py_int ratio;
                            iv_interpolation_needed = (set strikes - set standard_strikes \<noteq> {})
                        in run_cycles
                             (\<lambda>k. run_cycle w k currency expiry_code strikes standard_strikes
                                     iv_interpolation_needed existing_futures)
                             [1..<Suc (nat number_of_iterations)] []))))"

text \<open>The script: the currency is checked, then the loop runs.\<close>

definition supported_currencies :: "string list" where
  "supported_currencies =
     [''BTC'', ''ETH'', ''SOL_USDC'', ''XRP_USDC'', ''BNB_USDC'', ''PAXG_USDC'']"

definition main ::
  "world \<Rightarrow> string \<Rightarrow> string \<Rightarrow> int \<Rightarrow> int \<Rightarrow> real list \<Rightarrow> py_error option \<times> output_dict list" where
  "main w currency expiry_code t1 t2 strikes =
     (if upper currency \<notin> set supported_currencies then (Some SystemExit, [])
      else main_loop w currency expiry_code t1 t2 strikes)"

section \<open>Example markets\<close>

text \<open>
  Two BTC futures, expiring on 10 and on 20 January 2025 (the days 739261 and 739271),
  marked at 100000 and 101000; and two that expire on 2 and on 9 May 2025.
\<close>

definition jan_futures :: "string list" where
  "jan_futures = [''BTC-10JAN25'', ''BTC-20JAN25'']"

definition jan_dates :: "(string \<times> int) list" where
  "jan_dates = [(''BTC-10JAN25'', 739261), (''BTC-20JAN25'', 739271)]"

definition jan_pair :: surrounding where
  "jan_pair = \<lparr>prev_expiry_code = ''10JAN25'', next_expiry_code = ''20JAN25'',
               prev_expiry_date = 739261, next_expiry_date = 739271\<rparr>"

definition jan_ticker :: ticker where
  "jan_ticker = map_of [(''BTC-10JAN25'', 100000), (''BTC-20JAN25'', 101000)]"

definition may_futures :: "string list" where
  "may_futures = [''BTC-2MAY25'', ''BTC-9MAY25'']"

definition may_ticker :: ticker where
  "may_ticker = map_of [(''BTC-2MAY25'', 95000), (''BTC-9MAY25'', 96000)]"

text \<open>Two dated PAXG_USDC futures and the perpetual, each with a mark price.\<close>

definition paxg_futures :: "string list" where
  "paxg_futures = [''PAXG_USDC-10JAN25'', ''PAXG_USDC-20JAN25'']"

definition paxg_ticker :: ticker where
  "paxg_ticker = map_of [(''PAXG_USDC-10JAN25'', 3200), (''PAXG_USDC-20JAN25'', 3300),
                         (''PAXG_USDC-PERPETUAL'', 3310)]"

text \<open>
  A venue that quotes one strike, lists no future and answers no ticker request; and
  one that quotes two strikes before the loop and in cycle 1 and one strike from cycle
  2 on.
\<close>

definition quiet_grid_calls :: strike_dict where
  "quiet_grid_calls = [(100000, (1/2, 1200))]"

definition quiet_grid_puts :: strike_dict where
  "quiet_grid_puts = [(100000, (1/2, 1100))]"

definition quiet_world :: world where
  "quiet_world =
     \<lparr>w_grid = (\<lambda>k. Inr ([(100000, (1/2, 1200))], [(100000, (1/2, 1100))])),
      w_futures = Inr [],
      w_index = (\<lambda>k. Some 100000),
      w_ticker = (\<lambda>k name. None),
      w_now = (\<lambda>k. 0)\<rparr>"

definition thin_world :: world where
  "thin_world =
     \<lparr>w_grid = (\<lambda>k. if k \<le> 1
                      then Inr ([(50000, (55/100, 1200)), (51000, (50/100, 900))],
                                [(50000, (55/100, 300)), (51000, (50/100, 600))])
                      else Inr ([(50000, (55/100, 1200))], [(50000, (55/100, 300))])),
      w_futures = Inr [],
      w_index = (\<lambda>k. Some 100000),
      w_ticker = (\<lambda>k name. None),
      w_now = (\<lambda>k. 0)\<rparr>"

definition absent_row :: result_row where
  "absent_row = \<lparr>call_mark_price = None, deribit_call_mark_price = None,
                  put_mark_price = None, deribit_put_mark_price = None\<rparr>"








text \<open>Two quotes whose volatilities are doubles and differ by more than any double.\<close>

definition half_range :: real where
  "half_range = 2 ^ 1023"

definition steep_knots :: strike_dict where
  "steep_knots = [(100, (- half_range, 12)), (101, (half_range, 5))]"


section \<open>The search for the surrounding futures\<close>

lemma find_surrounding_inside:
  "\<not> t < snd (ed ! 0) \<Longrightarrow> \<not> snd (last ed) < t \<Longrightarrow>
   find_surrounding ed t js =
     (case List.find (\<lambda>i. t < snd (ed ! i)) js of
        None \<Rightarrow> None
      | Some i \<Rightarrow> Some (Interpolate, surround (ed ! (i - 1)) (ed ! i)))"
  by (induction js) auto

lemma find_surrounding_before:
  "t < snd (ed ! 0) \<Longrightarrow> js \<noteq> [] \<Longrightarrow>
   find_surrounding ed t js = Some (Extrapolate_before, surround (ed ! 0) (ed ! 1))"
  by (cases js) auto

lemma find_surrounding_after:
  "\<not> t < snd (ed ! 0) \<Longrightarrow> snd (last ed) < t \<Longrightarrow> js \<noteq> [] \<Longrightarrow>
   find_surrounding ed t js =
     Some (Extrapolate_after, surround (ed ! (length ed - 2)) (last ed))"
  by (cases js) auto

lemma sorted_dates_sorted: "sorted (map snd (sorted_dates xs))"
  by (simp add: sorted_dates_def)

lemma sorted_dates_le_last:
  assumes "i < length (sorted_dates xs)"
  shows "snd (sorted_dates xs ! i) \<le> snd (last (sorted_dates xs))"
proof -
  let ?ed = "sorted_dates xs"
  have ne: "?ed \<noteq> []" using assms by auto
  have "map snd ?ed ! i \<le> map snd ?ed ! (length ?ed - 1)"
    using sorted_dates_sorted [of xs] assms
    by (intro sorted_nth_mono) auto
  then show ?thesis
    using assms ne by (simp add: last_conv_nth)
qed

lemma select_at_last:
  assumes "ed = sorted_dates xs" and "ed \<noteq> []" and "t = snd (last ed)"
  shows "select_surrounding xs t = None"
proof -
  have le: "\<And>i. i < length ed \<Longrightarrow> snd (ed ! i) \<le> t"
    using assms sorted_dates_le_last [of _ xs] by simp
  have n0: "\<not> t < snd (ed ! 0)"
    using le [of 0] assms(2) by (simp add: not_less)
  have "List.find (\<lambda>i. t < snd (ed ! i)) [1..<length ed] = None"
    using le by (fastforce simp: find_None_iff not_less)
  then show ?thesis
    using find_surrounding_inside [OF n0, of "[1..<length ed]"] assms
    by (simp add: select_surrounding_def Let_def)
qed

lemma select_inside:
  assumes ed: "ed = sorted_dates xs" and len: "2 \<le> length ed"
    and lo: "snd (ed ! 0) \<le> t" and hi: "t < snd (last ed)"
  shows "\<exists>i. 1 \<le> i \<and> i < length ed \<and> snd (ed ! (i - 1)) \<le> t \<and> t < snd (ed ! i) \<and>
           select_surrounding xs t = Some (Interpolate, surround (ed ! (i - 1)) (ed ! i))"
proof -
  let ?P = "\<lambda>i. t < snd (ed ! i)"
  let ?js = "[1..<length ed]"
  have n0: "\<not> t < snd (ed ! 0)" and n1: "\<not> snd (last ed) < t"
    using lo hi by auto
  have "length ed - 1 \<in> set ?js" using len by auto
  moreover have "?P (length ed - 1)"
  proof -
    have "ed \<noteq> []" using len by auto
    then show ?thesis using hi by (simp add: last_conv_nth)
  qed
  ultimately have "List.find ?P ?js \<noteq> None"
    by (auto simp: find_None_iff)
  then obtain i where f: "List.find ?P ?js = Some i" by auto
  then obtain j where j: "j < length ?js" "?P (?js ! j)" "i = ?js ! j"
      "\<forall>k<j. \<not> ?P (?js ! k)"
    unfolding find_Some_iff by blast
  have i: "i = Suc j" "Suc j < length ed" using j(1,3) by auto
  have "snd (ed ! j) \<le> t"
  proof (cases j)
    case 0
    then show ?thesis using lo by simp
  next
    case (Suc k)
    then have "\<not> ?P (?js ! k)" using j(4) by simp
    moreover have "?js ! k = j" using Suc j(1) by simp
    ultimately show ?thesis by (simp add: not_less)
  qed
  moreover have "select_surrounding xs t = Some (Interpolate, surround (ed ! (i - 1)) (ed ! i))"
    using find_surrounding_inside [OF n0 n1, of ?js] f ed
    by (simp add: select_surrounding_def Let_def)
  ultimately show ?thesis
    using i j(2,3) by (intro exI [of _ i]) auto
qed


subsection \<open>Dates and instrument names of the examples\<close>

lemma lower_BTC: "lower ''BTC'' = ''btc''"
  by code_simp

lemmas date_defs = convert_future_name_to_date_def split_last_def strptime_dby_def is_digit_def
  digit_val_def month_of_abbr_def upper_def upper_char_def days_in_month_def toordinal_def
  days_before_year_def days_before_month_def is_leap_def Let_def

lemma date_10JAN25: "convert_future_name_to_date ''BTC-10JAN25'' = Inr 739261"
  by (simp add: date_defs)

lemma date_15JAN25: "convert_future_name_to_date ''BTC-15JAN25'' = Inr 739266"
  by (simp add: date_defs)

lemma date_20JAN25: "convert_future_name_to_date ''BTC-20JAN25'' = Inr 739271"
  by (simp add: date_defs)

lemma date_2MAY25: "convert_future_name_to_date ''BTC-2MAY25'' = Inr 739373"
  by (simp add: date_defs)

lemma date_9MAY25: "convert_future_name_to_date ''BTC-9MAY25'' = Inr 739380"
  by (simp add: date_defs)

lemma date_09MAY25: "convert_future_name_to_date ''BTC-09MAY25'' = Inr 739380"
  by (simp add: date_defs)

lemma split_last_jan: "split_last ''BTC-10JAN25'' = ''10JAN25''" "split_last ''BTC-20JAN25'' = ''20JAN25''"
  "split_last ''BTC-2MAY25'' = ''2MAY25''" "split_last ''BTC-9MAY25'' = ''9MAY25''"
  by (simp_all add: split_last_def)

lemma convert_all_jan:
  "convert_all jan_futures = Inr [(''BTC-10JAN25'', 739261), (''BTC-20JAN25'', 739271)]"
  by (simp add: jan_futures_def date_10JAN25 date_20JAN25)

lemma convert_all_may:
  "convert_all may_futures = Inr [(''BTC-2MAY25'', 739373), (''BTC-9MAY25'', 739380)]"
  by (simp add: may_futures_def date_2MAY25 date_9MAY25)

lemma btc_dated: "lower ''BTC'' \<in> set dated_currencies"
  by (simp add: lower_BTC dated_currencies_def)

lemma jan_15:
  "create_synthetic_future_price jan_ticker ''BTC'' ''15JAN25'' jan_futures = Inr 100500"
  using date_15JAN25
  by (simp add: create_synthetic_future_price_def convert_all_jan select_surrounding_def
      sorted_dates_def surround_def split_last_jan interpolate_price_def get_underlying_price_def
      btc_dated jan_ticker_def)


subsection \<open>The selected pair and the synthetic price\<close>

lemma convert_all_length: "convert_all fs = Inr ds \<Longrightarrow> length ds = length fs"
  by (induction fs arbitrary: ds) (auto split: sum.splits)

lemma select_short: "length ds < 2 \<Longrightarrow> select_surrounding ds t = None"
  by (simp add: select_surrounding_def sorted_dates_def Let_def)

lemma select_before:
  assumes "ed = sorted_dates xs" and "2 \<le> length ed" and "t < snd (ed ! 0)"
  shows "select_surrounding xs t = Some (Extrapolate_before, surround (ed ! 0) (ed ! 1))"
proof -
  have "[1..<length ed] \<noteq> []" using assms(2) by (cases ed) auto
  from find_surrounding_before [OF assms(3) this] show ?thesis
    using assms(1) by (simp add: select_surrounding_def Let_def)
qed

lemma select_after:
  assumes "ed = sorted_dates xs" and "2 \<le> length ed" and "snd (last ed) < t"
  shows "select_surrounding xs t =
           Some (Extrapolate_after, surround (ed ! (length ed - 2)) (last ed))"
proof -
  have "ed \<noteq> []" using assms(2) by auto
  then have "snd (ed ! 0) \<le> snd (last ed)"
    using sorted_dates_le_last [of 0 xs] assms(1) by simp
  then have n0: "\<not> t < snd (ed ! 0)" using assms(3) by simp
  have "[1..<length ed] \<noteq> []" using assms(2) by (cases ed) auto
  from find_surrounding_after [OF n0 assms(3) this] show ?thesis
    using assms(1) by (simp add: select_surrounding_def Let_def)
qed

lemma synthetic_from_selection:
  assumes "convert_all existing_futures = Inr existing_dates"
    and "convert_future_name_to_date (currency @ ''-'' @ expiry_code) = Inr target_date"
    and "select_surrounding existing_dates target_date = Some (b, surround prv nxt)"
  shows "create_synthetic_future_price tk currency expiry_code existing_futures =
           interpolate_price (get_underlying_price tk currency (split_last (fst prv)))
             (get_underlying_price tk currency (split_last (fst nxt)))
             (target_date - snd prv) (snd nxt - snd prv)"
  using assms by (simp add: create_synthetic_future_price_def surround_def)

text \<open>
  The loop of lines 117 to 138. When every listed future has a date and there are two
  or more, the futures are sorted by date, and the pair behind the synthetic price is:
  the first two when the target date is before the earliest date, the last two when it
  is after the latest, and otherwise the first adjacent pair with
  \<open>prev.date \<le> target.date < next.date\<close>. The price is
  \<open>prev.price + (days (target - prev) / days (next - prev)) * (next.price - prev.price)\<close>
  (in exact arithmetic) when both prices are there and the two dates differ. The third
  test of the loop is the strict \<open>existing_dates[i][1] > target_date\<close>: a target date
  equal to the latest known date passes none of the three tests, no pair is assigned,
  and line 140 raises \<open>UnboundLocalError\<close>.
\<close>

lemma synthetic_future_selection:
  assumes parse: "convert_all existing_futures = Inr existing_dates"
    and target: "convert_future_name_to_date (currency @ ''-'' @ expiry_code) = Inr target_date"
    and ed: "ed = sorted_dates existing_dates"
    and len: "2 \<le> length ed"
  shows "sorted (map snd ed) \<and> set ed = set existing_dates \<and>
    (target_date = snd (last ed) \<longrightarrow>
       create_synthetic_future_price tk currency expiry_code existing_futures = Inl UnboundLocalError) \<and>
    (target_date \<noteq> snd (last ed) \<longrightarrow>
       (\<exists>prv nxt.
          (if target_date < snd (ed ! 0) then prv = ed ! 0 \<and> nxt = ed ! 1
           else if snd (last ed) < target_date then prv = ed ! (length ed - 2) \<and> nxt = last ed
           else (\<exists>i. 1 \<le> i \<and> i < length ed \<and> prv = ed ! (i - 1) \<and> nxt = ed ! i) \<and>
                snd prv \<le> target_date \<and> target_date < snd nxt) \<and>
          (\<forall>p q. get_underlying_price tk currency (split_last (fst prv)) = Some p \<longrightarrow>
                 get_underlying_price tk currency (split_last (fst nxt)) = Some q \<longrightarrow>
                 snd nxt \<noteq> snd prv \<longrightarrow>
                 create_synthetic_future_price tk currency expiry_code existing_futures =
                   Inr (p + (real_of_int (target_date - snd prv) / real_of_int (snd nxt - snd prv))
                            * (q - p)))))"
proof -
  have ne: "ed \<noteq> []" using len by auto
  have s: "sorted (map snd ed)" "set ed = set existing_dates"
    using ed by (simp_all add: sorted_dates_def)
  have at_last: "create_synthetic_future_price tk currency expiry_code existing_futures =
      Inl UnboundLocalError" if "target_date = snd (last ed)"
    using select_at_last [OF ed ne that] parse target
    by (simp add: create_synthetic_future_price_def)
  have formula: "\<forall>p q. get_underlying_price tk currency (split_last (fst prv)) = Some p \<longrightarrow>
       get_underlying_price tk currency (split_last (fst nxt)) = Some q \<longrightarrow>
       snd nxt \<noteq> snd prv \<longrightarrow>
       create_synthetic_future_price tk currency expiry_code existing_futures =
         Inr (p + (real_of_int (target_date - snd prv) / real_of_int (snd nxt - snd prv)) * (q - p))"
    if "select_surrounding existing_dates target_date = Some (b, surround prv nxt)" for b prv nxt
    using synthetic_from_selection [OF parse target that, of tk]
    by (simp add: interpolate_price_def)
  have other: "\<exists>prv nxt.
          (if target_date < snd (ed ! 0) then prv = ed ! 0 \<and> nxt = ed ! 1
           else if snd (last ed) < target_date then prv = ed ! (length ed - 2) \<and> nxt = last ed
           else (\<exists>i. 1 \<le> i \<and> i < length ed \<and> prv = ed ! (i - 1) \<and> nxt = ed ! i) \<and>
                snd prv \<le> target_date \<and> target_date < snd nxt) \<and>
          (\<forall>p q. get_underlying_price tk currency (split_last (fst prv)) = Some p \<longrightarrow>
                 get_underlying_price tk currency (split_last (fst nxt)) = Some q \<longrightarrow>
                 snd nxt \<noteq> snd prv \<longrightarrow>
                 create_synthetic_future_price tk currency expiry_code existing_futures =
                   Inr (p + (real_of_int (target_date - snd prv) / real_of_int (snd nxt - snd prv))
                            * (q - p)))"
    if neq: "target_date \<noteq> snd (last ed)"
  proof -
    consider (before) "target_date < snd (ed ! 0)"
      | (after) "\<not> target_date < snd (ed ! 0)" "snd (last ed) < target_date"
      | (inside) "snd (ed ! 0) \<le> target_date" "target_date < snd (last ed)"
      using neq by linarith
    then show ?thesis
    proof cases
      case before
      show ?thesis
        using formula [OF select_before [OF ed len before]] before
        by (intro exI [of _ "ed ! 0"] exI [of _ "ed ! 1"]) simp
    next
      case after
      show ?thesis
        using formula [OF select_after [OF ed len after(2)]] after
        by (intro exI [of _ "ed ! (length ed - 2)"] exI [of _ "last ed"]) simp
    next
      case inside
      from select_inside [OF ed len inside] obtain i where i: "1 \<le> i" "i < length ed"
        "snd (ed ! (i - 1)) \<le> target_date" "target_date < snd (ed ! i)"
        "select_surrounding existing_dates target_date =
           Some (Interpolate, surround (ed ! (i - 1)) (ed ! i))"
        by blast
      have "(\<exists>j. 1 \<le> j \<and> j < length ed \<and> ed ! (i - 1) = ed ! (j - 1) \<and> ed ! i = ed ! j)"
        using i(1,2) by blast
      then show ?thesis
        using formula [OF i(5)] inside i(3,4)
        by (intro exI [of _ "ed ! (i - 1)"] exI [of _ "ed ! i"]) simp
    qed
  qed
  show ?thesis using s at_last other by blast
qed


lemma sorted_jan: "sorted_dates jan_dates = jan_dates"
  by (simp add: sorted_dates_def jan_dates_def)

lemma convert_all_jan': "convert_all jan_futures = Inr jan_dates"
  by (simp add: convert_all_jan jan_dates_def)

lemma date_15JAN25': "convert_future_name_to_date (''BTC'' @ ''-'' @ ''15JAN25'') = Inr 739266"
  using date_15JAN25 by simp

text \<open>
  An instance: the futures of 10 and 20 January, a target of 15 January. The one pair
  left is (10 January, 20 January) and the price is 100500.
\<close>

lemma synthetic_future_selection_example:
  "convert_all jan_futures = Inr jan_dates \<and>
   convert_future_name_to_date (''BTC'' @ ''-'' @ ''15JAN25'') = Inr 739266 \<and>
   2 \<le> length (sorted_dates jan_dates) \<and>
   create_synthetic_future_price jan_ticker ''BTC'' ''15JAN25'' jan_futures =
     Inr (100000 + (5 / 10) * (101000 - 100000))"
proof -
  have len: "2 \<le> length (sorted_dates jan_dates)"
    by (simp add: sorted_jan) (simp add: jan_dates_def)
  have p: "get_underlying_price jan_ticker ''BTC'' ''10JAN25'' = Some 100000"
    "get_underlying_price jan_ticker ''BTC'' ''20JAN25'' = Some 101000"
    by (simp_all add: get_underlying_price_def btc_dated jan_ticker_def)
  note T = synthetic_future_selection [OF convert_all_jan' date_15JAN25' refl len, of jan_ticker,
      unfolded sorted_jan]
  have c1: "(739266::int) \<noteq> snd (last jan_dates)"
    by (simp add: jan_dates_def)
  have c2: "\<not> 739266 < snd (jan_dates ! 0)" "\<not> snd (last jan_dates) < 739266"
    by (simp_all add: jan_dates_def)
  from T c1 obtain prv nxt where
    A: "if 739266 < snd (jan_dates ! 0) then prv = jan_dates ! 0 \<and> nxt = jan_dates ! 1
        else if snd (last jan_dates) < 739266
             then prv = jan_dates ! (length jan_dates - 2) \<and> nxt = last jan_dates
             else (\<exists>i. 1 \<le> i \<and> i < length jan_dates \<and> prv = jan_dates ! (i - 1) \<and>
                       nxt = jan_dates ! i) \<and>
                  snd prv \<le> 739266 \<and> 739266 < snd nxt"
    and f: "\<forall>p q. get_underlying_price jan_ticker ''BTC'' (split_last (fst prv)) = Some p \<longrightarrow>
                 get_underlying_price jan_ticker ''BTC'' (split_last (fst nxt)) = Some q \<longrightarrow>
                 snd nxt \<noteq> snd prv \<longrightarrow>
                 create_synthetic_future_price jan_ticker ''BTC'' ''15JAN25'' jan_futures =
                   Inr (p + (real_of_int (739266 - snd prv) / real_of_int (snd nxt - snd prv))
                            * (q - p))"
    by blast
  from A c2 obtain i where i: "1 \<le> i" "i < length jan_dates" "prv = jan_dates ! (i - 1)"
      "nxt = jan_dates ! i"
    by auto
  have "i = 1" using i(1,2) by (simp add: jan_dates_def)
  then have pn: "prv = (''BTC-10JAN25'', 739261)" "nxt = (''BTC-20JAN25'', 739271)"
    using i(3,4) by (simp_all add: jan_dates_def)
  have "create_synthetic_future_price jan_ticker ''BTC'' ''15JAN25'' jan_futures =
          Inr (100000 + (5 / 10) * (101000 - 100000))"
    using f p unfolding pn by (simp add: split_last_jan)
  then show ?thesis
    using convert_all_jan' date_15JAN25' len by simp
qed

lemma may_09:
  "create_synthetic_future_price may_ticker ''BTC'' ''09MAY25'' may_futures = Inl UnboundLocalError"
  using date_09MAY25
  by (simp add: create_synthetic_future_price_def convert_all_may select_surrounding_def
      sorted_dates_def)

lemma date_02MAY25: "convert_future_name_to_date ''BTC-02MAY25'' = Inr 739373"
  by (simp add: date_defs)

lemma may_02:
  "create_synthetic_future_price may_ticker ''BTC'' ''02MAY25'' may_futures = Inr 95000"
  using date_02MAY25
  by (simp add: create_synthetic_future_price_def convert_all_may select_surrounding_def
      sorted_dates_def surround_def split_last_def get_underlying_price_def btc_dated
      may_ticker_def interpolate_price_def)

text \<open>
  Claim C1 at the latest known date. \<open>BTC-09MAY25\<close> is not a listed name, its date
  is the date of the listed \<open>BTC-9MAY25\<close>, the latest one, so the pair (2 May, 9 May)
  has \<open>prev.date \<le> target.date \<le> next.date\<close> and both prices are known; the claim
  gives the forward 96000, the code computes none and raises. At the other end the code
  does what the claim says: for \<open>BTC-02MAY25\<close>, on the earliest known date, the
  forward is 95000.
\<close>

theorem synthetic_future_at_latest_date:
  "''BTC'' @ ''-'' @ ''09MAY25'' \<notin> set may_futures \<and>
   convert_all may_futures = Inr [(''BTC-2MAY25'', 739373), (''BTC-9MAY25'', 739380)] \<and>
   convert_future_name_to_date (''BTC'' @ ''-'' @ ''09MAY25'') = Inr 739380 \<and>
   get_underlying_price may_ticker ''BTC'' ''2MAY25'' = Some 95000 \<and>
   get_underlying_price may_ticker ''BTC'' ''9MAY25'' = Some 96000 \<and>
   create_synthetic_future_price may_ticker ''BTC'' ''09MAY25'' may_futures = Inl UnboundLocalError \<and>
   ''BTC'' @ ''-'' @ ''02MAY25'' \<notin> set may_futures \<and>
   convert_future_name_to_date (''BTC'' @ ''-'' @ ''02MAY25'') = Inr 739373 \<and>
   create_synthetic_future_price may_ticker ''BTC'' ''02MAY25'' may_futures = Inr 95000"
  using may_09 may_02 convert_all_may date_09MAY25 date_02MAY25
  by (simp add: may_futures_def get_underlying_price_def btc_dated may_ticker_def)

lemma select_jan_before: "t < 739261 \<Longrightarrow> select_surrounding jan_dates t = Some (Extrapolate_before, jan_pair)"
  by (simp add: select_surrounding_def sorted_jan) (simp add: jan_dates_def jan_pair_def surround_def split_last_jan)

lemma select_jan_after: "739271 < t \<Longrightarrow> select_surrounding jan_dates t = Some (Extrapolate_after, jan_pair)"
  by (simp add: select_surrounding_def sorted_jan) (simp add: jan_dates_def jan_pair_def surround_def split_last_jan)

lemma select_jan_inside:
  "739261 \<le> t \<Longrightarrow> t < 739271 \<Longrightarrow> select_surrounding jan_dates t = Some (Interpolate, jan_pair)"
  by (simp add: select_surrounding_def sorted_jan) (simp add: jan_dates_def jan_pair_def surround_def split_last_jan)

text \<open>
  Claim C6, as amended. With the two futures of day 10 and day 20 at 100000 and 101000,
  the forward for day 15 is \<open>100000 + (5 / 10) * (101000 - 100000)\<close>, by the interpolation
  branch, which is taken from day 10 up to the day before day 20; a target before day 10
  takes the first extrapolation branch, one after day 20 the second, on the same pair.
\<close>

theorem two_futures_example:
  "convert_all jan_futures = Inr jan_dates \<and>
   convert_future_name_to_date (''BTC'' @ ''-'' @ ''15JAN25'') = Inr 739266 \<and>
   select_surrounding jan_dates 739266 = Some (Interpolate, jan_pair) \<and>
   create_synthetic_future_price jan_ticker ''BTC'' ''15JAN25'' jan_futures =
     Inr (100000 + (5 / 10) * (101000 - 100000)) \<and>
   (\<forall>t. 739261 \<le> t \<and> t < 739271 \<longrightarrow>
        select_surrounding jan_dates t = Some (Interpolate, jan_pair)) \<and>
   (\<forall>t. t < 739261 \<longrightarrow> select_surrounding jan_dates t = Some (Extrapolate_before, jan_pair)) \<and>
   (\<forall>t. 739271 < t \<longrightarrow> select_surrounding jan_dates t = Some (Extrapolate_after, jan_pair))"
  using convert_all_jan' date_15JAN25' jan_15 select_jan_before select_jan_after select_jan_inside
  by simp

text \<open>Witness for C6: the targets 5 January, 30 January and 10 January.\<close>

theorem two_futures_example_witness:
  "(739256 :: int) < 739261 \<and>
   select_surrounding jan_dates 739256 = Some (Extrapolate_before, jan_pair) \<and>
   (739281 :: int) > 739271 \<and>
   select_surrounding jan_dates 739281 = Some (Extrapolate_after, jan_pair) \<and>
   (739261 :: int) \<le> 739261 \<and> (739261 :: int) < 739271 \<and>
   select_surrounding jan_dates 739261 = Some (Interpolate, jan_pair)"
  using two_futures_example by simp

text \<open>
  Counterexample to C6 as stated: the forward for day 15 is not
  \<open>100000 + (15 / 10) * (101000 - 100000)\<close>.
\<close>

theorem two_futures_example_not_15_tenths:
  "create_synthetic_future_price jan_ticker ''BTC'' ''15JAN25'' jan_futures \<noteq>
     Inr (100000 + (15 / 10) * (101000 - 100000))"
  by (simp add: jan_15)

lemma price_option_resolution_fails:
  assumes "resolve_future_price tk currency expiry_code existing_futures = Inl e"
  shows "price_option tk now currency expiry_code strike option_type iv existing_futures = None"
  using assms by (simp add: price_option_def)

text \<open>
  Claim C10. With fewer than two listed futures the loop body never runs: no pair is
  assigned, \<open>create_synthetic_future_price\<close> raises, and for a currency of the dated
  list whose expiry is not listed \<open>price_option\<close> returns \<open>None\<close>.
\<close>

theorem too_few_futures:
  assumes "length existing_futures < 2"
  shows "(\<forall>ds t. convert_all existing_futures = Inr ds \<longrightarrow> select_surrounding ds t = None) \<and>
         (\<exists>e. create_synthetic_future_price tk currency expiry_code existing_futures = Inl e) \<and>
         (lower currency \<in> set dated_currencies \<and>
          currency @ ''-'' @ expiry_code \<notin> set existing_futures \<longrightarrow>
            price_option tk now currency expiry_code strike option_type iv existing_futures = None)"
proof -
  have a: "select_surrounding ds t = None" if "convert_all existing_futures = Inr ds" for ds t
    using convert_all_length [OF that] assms by (simp add: select_short)
  have b: "\<exists>e. create_synthetic_future_price tk currency expiry_code existing_futures = Inl e"
    using a by (auto simp: create_synthetic_future_price_def split: sum.splits)
  have c: "price_option tk now currency expiry_code strike option_type iv existing_futures = None"
    if "lower currency \<in> set dated_currencies"
      "currency @ ''-'' @ expiry_code \<notin> set existing_futures"
  proof -
    from b obtain e where
      "create_synthetic_future_price tk currency expiry_code existing_futures = Inl e" ..
    then have "resolve_future_price tk currency expiry_code existing_futures = Inl e"
      using that by (simp add: resolve_future_price_def)
    then show ?thesis by (rule price_option_resolution_fails)
  qed
  show ?thesis using a b c by blast
qed

text \<open>Witness for C10: one listed future, and an expiry that is not listed.\<close>

theorem too_few_futures_witness:
  "length [''BTC-10JAN25''] < 2 \<and> lower ''BTC'' \<in> set dated_currencies \<and>
   ''BTC'' @ ''-'' @ ''15JAN25'' \<notin> set [''BTC-10JAN25''] \<and>
   price_option jan_ticker 0 ''BTC'' ''15JAN25'' 100000 ''call'' (Python_float (1/2))
     [''BTC-10JAN25''] = None"
proof -
  have l: "length [''BTC-10JAN25''] < 2" by simp
  have n: "''BTC'' @ ''-'' @ ''15JAN25'' \<notin> set [''BTC-10JAN25'']" by simp
  show ?thesis
    using too_few_futures [OF l, of jan_ticker "''BTC''" "''15JAN25''" 0 100000 "''call''"
        "Python_float (1/2)"]
      btc_dated l n by blast
qed

section \<open>Where the forward price comes from\<close>

lemma lower_names:
  "lower ''SOL_USDC'' = ''sol_usdc''" "lower ''XRP_USDC'' = ''xrp_usdc''"
  "lower ''BNB_USDC'' = ''bnb_usdc''" "lower ''PAXG_USDC'' = ''paxg_usdc''"
  "lower ''ETH'' = ''eth''"
  by code_simp+

lemma upper_names:
  "upper ''BTC'' = ''BTC''" "upper ''SOL_USDC'' = ''SOL_USDC''" "upper ''DOGE'' = ''DOGE''"
  "upper ''btc'' = ''BTC''"
  by code_simp+

lemma map_currency_usdc:
  "map_currency ''SOL_USDC'' = ''USDC''" "map_currency ''XRP_USDC'' = ''USDC''"
  "map_currency ''BNB_USDC'' = ''USDC''" "map_currency ''PAXG_USDC'' = ''USDC''"
  by (simp_all add: map_currency_def)

lemma date_paxg:
  "convert_future_name_to_date ''PAXG_USDC-10JAN25'' = Inr 739261"
  "convert_future_name_to_date ''PAXG_USDC-15JAN25'' = Inr 739266"
  "convert_future_name_to_date ''PAXG_USDC-20JAN25'' = Inr 739271"
  by (simp_all add: date_defs)

lemma split_last_paxg:
  "split_last ''PAXG_USDC-10JAN25'' = ''10JAN25''" "split_last ''PAXG_USDC-20JAN25'' = ''20JAN25''"
  by (simp_all add: split_last_def)

lemma paxg_dated: "lower ''PAXG_USDC'' \<in> set dated_currencies"
  by (simp add: lower_names dated_currencies_def)

lemma paxg_synthetic:
  "create_synthetic_future_price paxg_ticker ''PAXG_USDC'' ''15JAN25'' paxg_futures = Inr 3250"
  using date_paxg
  by (simp add: create_synthetic_future_price_def paxg_futures_def select_surrounding_def
      sorted_dates_def surround_def split_last_paxg interpolate_price_def get_underlying_price_def
      paxg_dated paxg_ticker_def)

text \<open>
  Claim C8, as amended. A currency whose lower-case name is not \<open>eth\<close>, \<open>btc\<close> or
  \<open>paxg_usdc\<close> gets its forward from the ticker of its perpetual, with no
  interpolation; that holds for the USDC-settled SOL_USDC, XRP_USDC and BNB_USDC. A
  currency of that list gets the ticker of the dated future when it is listed and the
  synthetic price otherwise.
\<close>

theorem forward_source_by_currency:
  "(lower currency \<notin> set dated_currencies \<longrightarrow>
      resolve_future_price tk currency expiry_code existing_futures =
        Inr (tk (currency @ ''-PERPETUAL''))) \<and>
   (lower currency \<in> set dated_currencies \<longrightarrow>
      resolve_future_price tk currency expiry_code existing_futures =
        (if currency @ ''-'' @ expiry_code \<in> set existing_futures
         then Inr (tk (currency @ ''-'' @ expiry_code))
         else (case create_synthetic_future_price tk currency expiry_code existing_futures of
                 Inl e \<Rightarrow> Inl e
               | Inr p \<Rightarrow> Inr (Some p)))) \<and>
   set dated_currencies = {''eth'', ''btc'', ''paxg_usdc''} \<and>
   lower ''SOL_USDC'' \<notin> set dated_currencies \<and> map_currency ''SOL_USDC'' = ''USDC'' \<and>
   lower ''XRP_USDC'' \<notin> set dated_currencies \<and> map_currency ''XRP_USDC'' = ''USDC'' \<and>
   lower ''BNB_USDC'' \<notin> set dated_currencies \<and> map_currency ''BNB_USDC'' = ''USDC''"
  by (auto simp: resolve_future_price_def get_underlying_price_def dated_currencies_def
      lower_names map_currency_usdc)

text \<open>Witness for C8: SOL_USDC goes to its perpetual, PAXG_USDC to a listed dated future.\<close>

theorem forward_source_by_currency_witness:
  "lower ''SOL_USDC'' \<notin> set dated_currencies \<and>
   resolve_future_price paxg_ticker ''SOL_USDC'' ''15JAN25'' paxg_futures =
     Inr (paxg_ticker ''SOL_USDC-PERPETUAL'') \<and>
   lower ''PAXG_USDC'' \<in> set dated_currencies \<and>
   resolve_future_price paxg_ticker ''PAXG_USDC'' ''10JAN25'' paxg_futures =
     Inr (paxg_ticker ''PAXG_USDC-10JAN25'')"
proof -
  have a: "lower ''SOL_USDC'' \<notin> set dated_currencies"
    by (simp add: lower_names dated_currencies_def)
  show ?thesis
    using forward_source_by_currency [of "''SOL_USDC''" paxg_ticker "''15JAN25''" paxg_futures]
      forward_source_by_currency [of "''PAXG_USDC''" paxg_ticker "''10JAN25''" paxg_futures]
      a paxg_dated
    by (simp add: paxg_futures_def)
qed

text \<open>
  Counterexample to C8 as stated. PAXG_USDC is settled in USDC and has a perpetual
  quote (3310 here); its forward for 15 January is still interpolated on the dated
  futures of 10 and 20 January (3200 and 3300).
\<close>

theorem paxg_uses_dated_curve:
  "map_currency ''PAXG_USDC'' = ''USDC'' \<and>
   ''PAXG_USDC'' @ ''-'' @ ''15JAN25'' \<notin> set paxg_futures \<and>
   paxg_ticker ''PAXG_USDC-PERPETUAL'' = Some 3310 \<and>
   resolve_future_price paxg_ticker ''PAXG_USDC'' ''15JAN25'' paxg_futures =
     Inr (Some (3200 + (5 / 10) * (3300 - 3200))) \<and>
   resolve_future_price paxg_ticker ''PAXG_USDC'' ''15JAN25'' paxg_futures \<noteq>
     Inr (paxg_ticker ''PAXG_USDC-PERPETUAL'')"
  by (simp add: map_currency_usdc resolve_future_price_def paxg_dated paxg_synthetic)
     (simp add: paxg_futures_def paxg_ticker_def)

section \<open>Doubles, and the number of cycles\<close>

text \<open>
  The quotient of the duration by the interval is a double before \<open>int\<close> cuts it: a
  quotient that is not a double is rounded first, and may be rounded up to a whole
  number.
\<close>

lemma floor_log2:
  assumes "2 powr real_of_int e \<le> \<bar>x\<bar>" and "\<bar>x\<bar> < 2 powr real_of_int (e + 1)"
  shows "\<lfloor>log 2 \<bar>x\<bar>\<rfloor> = e"
proof -
  have pos: "0 < \<bar>x\<bar>" using assms(1) by (smt (verit) powr_gt_zero)
  have a: "real_of_int e \<le> log 2 \<bar>x\<bar>" using assms(1) pos by (simp add: le_log_iff)
  have b: "log 2 \<bar>x\<bar> < real_of_int (e + 1)" using assms(2) pos by (simp add: log_less_iff)
  show ?thesis using a b by (simp add: floor_eq_iff)
qed

lemma round_half_even_int: "round_half_even (real_of_int m) = m"
  by (simp add: round_half_even_def)

text \<open>A number of 53 significant bits is a double, and rounding leaves it as it is.\<close>

lemma round_double_dyadic:
  assumes "2 ^ 52 \<le> \<bar>m\<bar>" and "\<bar>m\<bar> < 2 ^ 53" and "- 1074 \<le> k"
  shows "round_double (real_of_int m * 2 powr real_of_int k) = real_of_int m * 2 powr real_of_int k"
proof -
  let ?x = "real_of_int m * 2 powr real_of_int k"
  have m0: "m \<noteq> 0" using assms(1) by auto
  have ax: "\<bar>?x\<bar> = real_of_int \<bar>m\<bar> * 2 powr real_of_int k" by (simp add: abs_mult)
  have lo: "2 powr real_of_int (52 + k) \<le> \<bar>?x\<bar>"
  proof -
    have "(2::real) ^ 52 \<le> real_of_int \<bar>m\<bar>"
      using assms(1) by (metis of_int_le_iff of_int_numeral of_int_power)
    then have "2 powr 52 * 2 powr real_of_int k \<le> real_of_int \<bar>m\<bar> * 2 powr real_of_int k"
      by (simp add: mult_right_mono)
    then show ?thesis unfolding ax by (simp add: powr_add)
  qed
  have hi: "\<bar>?x\<bar> < 2 powr real_of_int (52 + k + 1)"
  proof -
    have "real_of_int \<bar>m\<bar> < (2::real) ^ 53"
      using assms(2) by (metis of_int_less_iff of_int_numeral of_int_power)
    then have "real_of_int \<bar>m\<bar> * 2 powr real_of_int k < 2 powr 53 * 2 powr real_of_int k"
      by (simp add: mult_strict_right_mono)
    then show ?thesis unfolding ax by (simp add: powr_add)
  qed
  have fl: "\<lfloor>log 2 \<bar>?x\<bar>\<rfloor> = 52 + k" by (rule floor_log2 [OF lo hi])
  have mx: "max (52 + k) (- 1022) = 52 + k" using assms(3) by simp
  have u: "double_ulp ?x = 2 powr real_of_int k"
    unfolding double_ulp_def fl mx by simp
  have x0: "?x \<noteq> 0" using m0 by simp
  have q: "?x / double_ulp ?x = real_of_int m" unfolding u by simp
  show ?thesis
    unfolding round_double_def q using x0 by (simp add: round_half_even_int u)
qed

lemma round_double_1: "round_double 1 = 1"
  using round_double_dyadic [of "2 ^ 52" "- 52"] by (simp add: powr_minus_divide)

lemma round_double_2: "round_double 2 = 2"
  using round_double_dyadic [of "2 ^ 52" "- 51"] by (simp add: powr_minus_divide)

lemma round_double_half: "round_double (1 / 2) = 1 / 2"
  using round_double_dyadic [of "2 ^ 52" "- 53"] by (simp add: powr_minus_divide)



lemma round_double_0: "round_double 0 = 0"
  by (simp add: round_double_def)

text \<open>Doubles given by their 53 bits and their exponent.\<close>

lemma is_double_dyadic:
  assumes "2 ^ 52 \<le> \<bar>m\<bar>" and "\<bar>m\<bar> < 2 ^ 53" and "- 1074 \<le> k" and "k \<le> 971"
  shows "is_double (real_of_int m * 2 powr real_of_int k)"
proof -
  have "\<bar>real_of_int m * 2 powr real_of_int k\<bar> = real_of_int \<bar>m\<bar> * 2 powr real_of_int k"
    by (simp add: abs_mult)
  also have "\<dots> < 2 ^ 53 * 2 powr real_of_int k"
  proof -
    have "real_of_int \<bar>m\<bar> < (2::real) ^ 53"
      using assms(2) by (metis of_int_less_iff of_int_numeral of_int_power)
    then show ?thesis by (simp add: mult_strict_right_mono)
  qed
  also have "\<dots> \<le> 2 ^ 53 * 2 powr real_of_int 971"
  proof -
    have "(2::real) powr real_of_int k \<le> 2 powr real_of_int 971"
      by (rule powr_mono) (use assms(4) in simp_all)
    then show ?thesis by (intro mult_left_mono) simp_all
  qed
  also have "\<dots> = 2 ^ 1024"
    by simp
  finally show ?thesis
    using round_double_dyadic [OF assms(1,2,3)] by (simp add: is_double_def)
qed

lemma is_double_0: "is_double 0"
  by (simp add: is_double_def round_double_0)

lemma to_double_exact: "is_double x \<Longrightarrow> to_double x = Fin x"
  by (auto simp: is_double_def to_double_def Let_def)

lemma to_double_0: "to_double 0 = Fin 0"
  by (simp add: to_double_exact is_double_0)

text \<open>Sums and products with 0 and 1.\<close>

lemma dmul_0: "dmul (Fin a) (Fin 0) = Fin 0" "dmul (Fin 0) (Fin a) = Fin 0"
  by (simp_all add: dmul_def to_double_0)

lemma dmul_1: "is_double a \<Longrightarrow> dmul (Fin a) (Fin 1) = Fin a"
  "is_double a \<Longrightarrow> dmul (Fin 1) (Fin a) = Fin a"
  by (simp_all add: dmul_def to_double_exact)

lemma dadd_0: "is_double a \<Longrightarrow> dadd (Fin a) (Fin 0) = Fin a"
  "is_double a \<Longrightarrow> dadd (Fin 0) (Fin a) = Fin a"
  by (simp_all add: dadd_def to_double_exact)

lemma dsub_self: "dsub (Fin a) (Fin a) = Fin 0"
  by (simp add: dsub_def fsub_def to_double_0)

lemma dsub_0: "is_double a \<Longrightarrow> dsub (Fin a) (Fin 0) = Fin a"
  by (simp add: dsub_def fsub_def to_double_exact)


lemma divide_1_1: "int_true_divide 1 1 = Inr 1"
  by (simp add: int_true_divide_def round_double_1)

lemma divide_2_1: "int_true_divide 2 1 = Inr 2"
  by (simp add: int_true_divide_def round_double_2)

lemma divide_1_2: "int_true_divide 1 2 = Inr (1 / 2)"
  by (simp add: int_true_divide_def round_double_half)

lemma divide_by_0: "int_true_divide t1 0 = Inl ZeroDivisionError"
  by (simp add: int_true_divide_def)

lemma divide_error: "int_true_divide t1 t2 = Inl ZeroDivisionError \<longleftrightarrow> t2 = 0"
  by (simp add: int_true_divide_def Let_def)

text \<open>
  The quotient of \<open>2 ^ 54 - 1\<close> by \<open>2 ^ 54\<close> is less than one, lies halfway between
  two doubles and is rounded to the double 1: such a run has one cycle.
\<close>

lemma divide_rounds_up: "int_true_divide (2 ^ 54 - 1) (2 ^ 54) = Inr 1"
proof -
  let ?x = "real_of_int (2 ^ 54 - 1) / real_of_int (2 ^ 54)"
  have x: "?x = 18014398509481983 / 18014398509481984" by simp
  have fl: "\<lfloor>log 2 \<bar>?x\<bar>\<rfloor> = - 1"
    by (rule floor_log2) (simp_all add: powr_minus_divide)
  have u: "double_ulp ?x = 1 / 2 ^ 53"
    unfolding double_ulp_def fl by (simp add: powr_minus_divide)
  have q: "?x / double_ulp ?x = 18014398509481983 / 2"
    unfolding u by simp
  have f: "\<lfloor>(18014398509481983 :: real) / 2\<rfloor> = 9007199254740991"
    by (rule floor_unique) simp_all
  have r: "round_half_even (18014398509481983 / 2) = 2 ^ 53"
    unfolding round_half_even_def Let_def f by simp
  have x0: "?x \<noteq> 0" by simp
  have "round_double ?x = real_of_int (round_half_even (?x / double_ulp ?x)) * double_ulp ?x"
    using x0 by (simp only: round_double_def if_False)
  also have "\<dots> = real_of_int (2 ^ 53) * (1 / 2 ^ 53)"
    unfolding q unfolding r unfolding u ..
  finally have "round_double ?x = 1" by simp
  then show ?thesis
    by (simp add: int_true_divide_def)
qed

text \<open>Every index of the list is run when no cycle raises.\<close>

lemma run_cycles_all:
  "\<forall>k\<in>set ks. cyc k = Inr (out k) \<Longrightarrow> run_cycles cyc ks saved = (None, saved @ map out ks)"
  by (induction ks arbitrary: saved) auto

text \<open>The first cycle that raises ends the run; what was saved before stays.\<close>

lemma run_cycles_abort:
  "\<forall>j\<in>set earlier. cyc j = Inr (out j) \<Longrightarrow> cyc k = Inl e \<Longrightarrow>
   run_cycles cyc (earlier @ k # later) saved = (Some e, saved @ map out earlier)"
  by (induction earlier arbitrary: saved) auto

lemma main_loop_cycles:
  assumes "w_grid w 0 = Inr g" and "w_futures w = Inr fs" and "int_true_divide t1 t2 = Inr q"
  shows "main_loop w currency expiry_code t1 t2 strikes =
           run_cycles
             (\<lambda>k. run_cycle w k currency expiry_code strikes (map fst (fst g))
                     (set strikes - set (map fst (fst g)) \<noteq> {}) fs)
             [1..<Suc (nat (py_int q))] []"
  using assms by (simp add: main_loop_def Let_def split: prod.splits)

lemma main_loop_no_quotient:
  assumes "w_grid w 0 = Inr g" and "w_futures w = Inr fs" and "int_true_divide t1 t2 = Inl e"
  shows "main_loop w currency expiry_code t1 t2 strikes = (Some e, [])"
  using assms by (simp add: main_loop_def Let_def split: prod.splits)

section \<open>The run parameters\<close>

lemma main_unsupported:
  "upper currency \<notin> set supported_currencies \<Longrightarrow>
   main w currency expiry_code t1 t2 strikes = (Some SystemExit, [])"
  by (simp add: main_def)

lemma main_supported:
  "upper currency \<in> set supported_currencies \<Longrightarrow>
   main w currency expiry_code t1 t2 strikes = main_loop w currency expiry_code t1 t2 strikes"
  by (simp add: main_def)

lemma main_first_fetch_fails:
  "upper currency \<in> set supported_currencies \<Longrightarrow> w_grid w 0 = Inl e \<Longrightarrow>
   main w currency expiry_code t1 t2 strikes = (Some e, [])"
  by (simp add: main_def main_loop_def)

lemma main_zero_interval:
  "upper currency \<in> set supported_currencies \<Longrightarrow> w_grid w 0 = Inr g \<Longrightarrow>
   w_futures w = Inr fs \<Longrightarrow>
   main w currency expiry_code t1 0 strikes = (Some ZeroDivisionError, [])"
  by (simp add: main_supported main_loop_no_quotient [OF _ _ divide_by_0])

lemma main_no_cycle:
  "upper currency \<in> set supported_currencies \<Longrightarrow> w_grid w 0 = Inr g \<Longrightarrow>
   w_futures w = Inr fs \<Longrightarrow> int_true_divide t1 t2 = Inr q \<Longrightarrow> py_int q < 1 \<Longrightarrow>
   main w currency expiry_code t1 t2 strikes = (None, [])"
  by (simp add: main_supported main_loop_cycles)

text \<open>
  Claim C9, as amended. A currency outside the supported set ends the script before
  anything is fetched. The duration and the interval are not checked. After the first
  fetches (an exception of the first fetch ends the run whatever the interval is) the
  quotient \<open>t1 / t2\<close> is computed: an interval of zero raises
  \<open>ZeroDivisionError\<close> there, before any cycle. Otherwise the quotient is the double
  nearest to the exact one and the cycles are those of the indices from 1 to
  \<open>int(t1 / t2)\<close>, each one run in turn until one raises: all of them when none
  raises, and none at all, the run returning without an error, when \<open>int(t1 / t2)\<close>
  is below one.
\<close>

theorem run_parameters_checked:
  "(upper currency \<notin> set supported_currencies \<longrightarrow>
      main w currency expiry_code t1 t2 strikes = (Some SystemExit, [])) \<and>
   (upper currency \<in> set supported_currencies \<and> w_grid w 0 = Inl e \<longrightarrow>
      main w currency expiry_code t1 t2 strikes = (Some e, [])) \<and>
   (upper currency \<in> set supported_currencies \<and> w_grid w 0 = Inr g \<and> w_futures w = Inr fs \<and>
    t2 = 0 \<longrightarrow>
      int_true_divide t1 t2 = Inl ZeroDivisionError \<and>
      main w currency expiry_code t1 t2 strikes = (Some ZeroDivisionError, [])) \<and>
   (upper currency \<in> set supported_currencies \<and> w_grid w 0 = Inr g \<and> w_futures w = Inr fs \<and>
    int_true_divide t1 t2 = Inr q \<longrightarrow>
      t2 \<noteq> 0 \<and> q = round_double (real_of_int t1 / real_of_int t2) \<and>
      main w currency expiry_code t1 t2 strikes =
        run_cycles
          (\<lambda>k. run_cycle w k currency expiry_code strikes (map fst (fst g))
                  (set strikes - set (map fst (fst g)) \<noteq> {}) fs)
          [1..<Suc (nat (py_int q))] [] \<and>
      length [1..<Suc (nat (py_int q))] = nat (py_int q) \<and>
      (py_int q < 1 \<longrightarrow> main w currency expiry_code t1 t2 strikes = (None, []))) \<and>
   (\<forall>cyc ks out saved.
      (\<forall>k\<in>set ks. cyc k = Inr (out k)) \<longrightarrow>
      run_cycles cyc ks saved = (None, saved @ map out ks)) \<and>
   (\<forall>cyc earlier k later out saved e'.
      (\<forall>j\<in>set earlier. cyc j = Inr (out j)) \<and> cyc k = Inl e' \<longrightarrow>
      run_cycles cyc (earlier @ k # later) saved = (Some e', saved @ map out earlier))"
proof (intro conjI impI allI)
  assume "upper currency \<notin> set supported_currencies"
  then show "main w currency expiry_code t1 t2 strikes = (Some SystemExit, [])"
    by (rule main_unsupported)
next
  assume "upper currency \<in> set supported_currencies \<and> w_grid w 0 = Inl e"
  then show "main w currency expiry_code t1 t2 strikes = (Some e, [])"
    using main_first_fetch_fails [of currency w e expiry_code t1 t2 strikes] by simp
next
  assume "upper currency \<in> set supported_currencies \<and> w_grid w 0 = Inr g \<and>
    w_futures w = Inr fs \<and> t2 = 0"
  then show "int_true_divide t1 t2 = Inl ZeroDivisionError"
    by (simp add: divide_by_0)
next
  assume "upper currency \<in> set supported_currencies \<and> w_grid w 0 = Inr g \<and>
    w_futures w = Inr fs \<and> t2 = 0"
  then show "main w currency expiry_code t1 t2 strikes = (Some ZeroDivisionError, [])"
    using main_zero_interval [of currency w g fs expiry_code t1 strikes] by simp
next
  assume "upper currency \<in> set supported_currencies \<and> w_grid w 0 = Inr g \<and>
    w_futures w = Inr fs \<and> int_true_divide t1 t2 = Inr q"
  then show "t2 \<noteq> 0"
    by (auto simp: int_true_divide_def)
next
  assume "upper currency \<in> set supported_currencies \<and> w_grid w 0 = Inr g \<and>
    w_futures w = Inr fs \<and> int_true_divide t1 t2 = Inr q"
  then show "q = round_double (real_of_int t1 / real_of_int t2)"
    by (auto simp: int_true_divide_def Let_def split: if_splits)
next
  assume "upper currency \<in> set supported_currencies \<and> w_grid w 0 = Inr g \<and>
    w_futures w = Inr fs \<and> int_true_divide t1 t2 = Inr q"
  then show "main w currency expiry_code t1 t2 strikes =
        run_cycles
          (\<lambda>k. run_cycle w k currency expiry_code strikes (map fst (fst g))
                  (set strikes - set (map fst (fst g)) \<noteq> {}) fs)
          [1..<Suc (nat (py_int q))] []"
    by (simp add: main_supported main_loop_cycles)
next
  show "length [1..<Suc (nat (py_int q))] = nat (py_int q)" by simp
next
  assume "upper currency \<in> set supported_currencies \<and> w_grid w 0 = Inr g \<and>
    w_futures w = Inr fs \<and> int_true_divide t1 t2 = Inr q" and "py_int q < 1"
  then show "main w currency expiry_code t1 t2 strikes = (None, [])"
    using main_no_cycle [of currency w g fs t1 t2 q expiry_code strikes] by simp
next
  fix cyc :: "nat \<Rightarrow> py_error + output_dict" and ks out saved
  assume "\<forall>k\<in>set ks. cyc k = Inr (out k)"
  then show "run_cycles cyc ks saved = (None, saved @ map out ks)"
    by (rule run_cycles_all)
next
  fix cyc :: "nat \<Rightarrow> py_error + output_dict" and earlier k later out saved e'
  assume "(\<forall>j\<in>set earlier. cyc j = Inr (out j)) \<and> cyc k = Inl e'"
  then show "run_cycles cyc (earlier @ k # later) saved = (Some e', saved @ map out earlier)"
    using run_cycles_abort [of earlier cyc out k e' later saved] by simp
qed

lemma quiet_grid: "w_grid quiet_world 0 = Inr ([(100000, (1/2, 1200))], [(100000, (1/2, 1100))])"
  by (simp add: quiet_world_def)

lemma quiet_futures: "w_futures quiet_world = Inr []"
  by (simp add: quiet_world_def)

lemma btc_supported: "upper ''BTC'' \<in> set supported_currencies"
  by (simp add: upper_names supported_currencies_def)

lemma doge_unsupported: "upper ''DOGE'' \<notin> set supported_currencies"
  by (simp add: upper_names supported_currencies_def)

lemma py_int_half: "py_int (1 / 2) = 0"
  by (simp add: py_int_def)

text \<open>
  Witness for C9: the currency DOGE; BTC with an interval of 0, with and without an
  answer to the first fetch; BTC with 1 second in steps of 2; two cycles that both
  return; and three cycles of which the second raises.
\<close>

theorem run_parameters_checked_witness:
  "upper ''DOGE'' \<notin> set supported_currencies \<and>
   main quiet_world ''DOGE'' ''10JAN25'' 10 5 [100000] = (Some SystemExit, []) \<and>
   upper ''BTC'' \<in> set supported_currencies \<and>
   w_grid quiet_world 0 = Inr ([(100000, (1/2, 1200))], [(100000, (1/2, 1100))]) \<and>
   w_futures quiet_world = Inr [] \<and>
   main quiet_world ''BTC'' ''10JAN25'' 10 0 [100000] = (Some ZeroDivisionError, []) \<and>
   main (quiet_world\<lparr>w_grid := \<lambda>k. Inl TypeError\<rparr>) ''BTC'' ''10JAN25'' 10 0 [100000] =
     (Some TypeError, []) \<and>
   int_true_divide 1 2 = Inr (1 / 2) \<and> py_int (1 / 2) < 1 \<and>
   main quiet_world ''BTC'' ''10JAN25'' 1 2 [100000] = (None, []) \<and>
   run_cycles (\<lambda>k. Inr [(real k, absent_row)]) [1, 2] [] =
     (None, [[(1, absent_row)], [(2, absent_row)]]) \<and>
   run_cycles (\<lambda>k. if k = 2 then Inl KeyError else Inr [(real k, absent_row)]) [1, 2, 3] [] =
     (Some KeyError, [[(1, absent_row)]])"
proof -
  note a = run_parameters_checked [where currency = "''DOGE''" and w = quiet_world
      and expiry_code = "''10JAN25''" and ?t1.0 = 10 and ?t2.0 = 5 and strikes = "[100000]",
      THEN conjunct1]
  note b = run_parameters_checked [where currency = "''BTC''" and w = quiet_world
      and expiry_code = "''10JAN25''" and ?t1.0 = 10 and ?t2.0 = 0 and strikes = "[100000]"
      and g = "([(100000, (1/2, 1200))], [(100000, (1/2, 1100))])" and fs = "[]",
      THEN conjunct2, THEN conjunct2, THEN conjunct1]
  note f = run_parameters_checked [where currency = "''BTC''"
      and w = "quiet_world\<lparr>w_grid := \<lambda>k. Inl TypeError\<rparr>"
      and expiry_code = "''10JAN25''" and ?t1.0 = 10 and ?t2.0 = 0 and strikes = "[100000]"
      and e = TypeError, THEN conjunct2, THEN conjunct1]
  note c = run_parameters_checked [where currency = "''BTC''" and w = quiet_world
      and expiry_code = "''10JAN25''" and ?t1.0 = 1 and ?t2.0 = 2 and strikes = "[100000]"
      and g = "([(100000, (1/2, 1200))], [(100000, (1/2, 1100))])" and fs = "[]"
      and q = "1 / 2", THEN conjunct2, THEN conjunct2, THEN conjunct2]
  have 0: "main (quiet_world\<lparr>w_grid := \<lambda>k. Inl TypeError\<rparr>) ''BTC'' ''10JAN25'' 10 0 [100000] =
     (Some TypeError, [])"
    using f btc_supported by simp
  have 1: "main quiet_world ''DOGE'' ''10JAN25'' 10 5 [100000] = (Some SystemExit, [])"
    using a doge_unsupported by blast
  have 2: "main quiet_world ''BTC'' ''10JAN25'' 10 0 [100000] = (Some ZeroDivisionError, [])"
    using b btc_supported quiet_grid quiet_futures by blast
  have 3: "main quiet_world ''BTC'' ''10JAN25'' 1 2 [100000] = (None, [])"
    using c [THEN conjunct1] btc_supported quiet_grid quiet_futures divide_1_2 py_int_half
    by simp
  have e: "\<forall>k\<in>set [Suc 0, 2]. (\<lambda>k. Inr [(real k, absent_row)] :: py_error + output_dict) k =
             Inr ((\<lambda>k. [(real k, absent_row)]) k)"
    by simp
  from c [THEN conjunct2, THEN conjunct1, THEN spec, of "\<lambda>k. Inr [(real k, absent_row)]",
      THEN spec, of "[Suc 0, 2]", THEN spec, of "\<lambda>k. [(real k, absent_row)]", THEN spec, of "[]",
      THEN mp, OF e]
  have 4: "run_cycles (\<lambda>k. Inr [(real k, absent_row)]) [1, 2] [] =
     (None, [[(1, absent_row)], [(2, absent_row)]])"
    by simp
  have e2: "(\<forall>j\<in>set [Suc 0].
               (\<lambda>k. if k = 2 then Inl KeyError else Inr [(real k, absent_row)]) j =
               Inr ((\<lambda>k. [(real k, absent_row)]) j)) \<and>
            (\<lambda>k. if k = 2 then Inl KeyError else Inr [(real k, absent_row)]) 2 = Inl KeyError"
    by simp
  from c [THEN conjunct2, THEN conjunct2, THEN spec,
      of "\<lambda>k. if k = 2 then Inl KeyError else Inr [(real k, absent_row)]", THEN spec,
      of "[Suc 0]", THEN spec, of 2, THEN spec, of "[3]", THEN spec,
      of "\<lambda>k. [(real k, absent_row)]", THEN spec, of "[]", THEN spec, of KeyError,
      THEN mp, OF e2]
  have 5: "run_cycles (\<lambda>k. if k = 2 then Inl KeyError else Inr [(real k, absent_row)])
             [1, 2, 3] [] = (Some KeyError, [[(1, absent_row)]])"
    by simp
  show ?thesis
    using 0 1 2 3 4 5 doge_unsupported btc_supported quiet_grid quiet_futures divide_1_2 py_int_half
    by simp
qed

text \<open>
  Counterexample to C9 as stated: a duration of 1 and an interval of 2 yield no whole
  cycle, and the run returns normally.
\<close>

theorem short_run_is_not_refused:
  "upper ''BTC'' \<in> set supported_currencies \<and> int_true_divide 1 2 = Inr (1 / 2) \<and>
   py_int (1 / 2) = 0 \<and>
   main quiet_world ''BTC'' ''10JAN25'' 1 2 [100000] = (None, [])"
  using main_no_cycle [OF btc_supported quiet_grid quiet_futures divide_1_2, of "''10JAN25''"
      "[100000]"]
    btc_supported divide_1_2 py_int_half
  by simp

section \<open>An absent price in a cycle\<close>

lemma process_strike_eth_btc:
  assumes "strike_inputs strike standard_strikes call_iv_fn put_iv_fn calls_strike_iv puts_strike_iv
             = Inr (call_iv, put_iv, call_act, put_act)"
    and "lower currency \<in> set [''eth'', ''btc'']"
  shows "process_strike tk now currency strike expiry_code standard_strikes call_iv_fn put_iv_fn
           calls_strike_iv puts_strike_iv index_price existing_futures =
         Inr \<lparr>call_mark_price = normalize_usd_price_to_currency
                  (price_option tk now currency expiry_code strike ''call'' call_iv existing_futures)
                  index_price,
              deribit_call_mark_price = call_act,
              put_mark_price = normalize_usd_price_to_currency
                  (price_option tk now currency expiry_code strike ''put'' put_iv existing_futures)
                  index_price,
              deribit_put_mark_price = put_act\<rparr>"
  using assms by (simp add: process_strike_def Let_def)

lemma process_strike_other:
  assumes "strike_inputs strike standard_strikes call_iv_fn put_iv_fn calls_strike_iv puts_strike_iv
             = Inr (call_iv, put_iv, call_act, put_act)"
    and "lower currency \<notin> set [''eth'', ''btc'']"
    and "price_option tk now currency expiry_code strike ''call'' call_iv existing_futures = None \<or>
         price_option tk now currency expiry_code strike ''put'' put_iv existing_futures = None"
  shows "process_strike tk now currency strike expiry_code standard_strikes call_iv_fn put_iv_fn
           calls_strike_iv puts_strike_iv index_price existing_futures = Inl TypeError"
  using assms by (auto simp: process_strike_def Let_def round_price_def split: option.splits)

text \<open>
  Claim C3. When the call or the put cannot be priced, the row of an ETH or BTC strike
  has an absent price in that cell; for every other currency \<open>round(None, 4)\<close> raises
  a \<open>TypeError\<close> that leaves \<open>process_strike\<close>.
\<close>

theorem absent_price_in_process_strike:
  assumes "strike_inputs strike standard_strikes call_iv_fn put_iv_fn calls_strike_iv puts_strike_iv
             = Inr (call_iv, put_iv, call_act, put_act)"
    and "price_option tk now currency expiry_code strike ''call'' call_iv existing_futures = None \<or>
         price_option tk now currency expiry_code strike ''put'' put_iv existing_futures = None"
  shows "(lower currency \<in> set [''eth'', ''btc''] \<longrightarrow>
            (\<exists>row. process_strike tk now currency strike expiry_code standard_strikes call_iv_fn
                     put_iv_fn calls_strike_iv puts_strike_iv index_price existing_futures = Inr row \<and>
                   (price_option tk now currency expiry_code strike ''call'' call_iv
                      existing_futures = None \<longrightarrow> call_mark_price row = None) \<and>
                   (price_option tk now currency expiry_code strike ''put'' put_iv
                      existing_futures = None \<longrightarrow> put_mark_price row = None))) \<and>
         (lower currency \<notin> set [''eth'', ''btc''] \<longrightarrow>
            process_strike tk now currency strike expiry_code standard_strikes call_iv_fn
              put_iv_fn calls_strike_iv puts_strike_iv index_price existing_futures = Inl TypeError)"
proof (intro conjI impI)
  assume "lower currency \<in> set [''eth'', ''btc'']"
  from process_strike_eth_btc [OF assms(1) this, of tk now expiry_code index_price existing_futures]
  show "\<exists>row. process_strike tk now currency strike expiry_code standard_strikes call_iv_fn
                 put_iv_fn calls_strike_iv puts_strike_iv index_price existing_futures = Inr row \<and>
               (price_option tk now currency expiry_code strike ''call'' call_iv
                  existing_futures = None \<longrightarrow> call_mark_price row = None) \<and>
               (price_option tk now currency expiry_code strike ''put'' put_iv
                  existing_futures = None \<longrightarrow> put_mark_price row = None)"
    by (simp add: normalize_usd_price_to_currency_def)
next
  assume "lower currency \<notin> set [''eth'', ''btc'']"
  then show "process_strike tk now currency strike expiry_code standard_strikes call_iv_fn
      put_iv_fn calls_strike_iv puts_strike_iv index_price existing_futures = Inl TypeError"
    using process_strike_other [OF assms(1)] assms(2) by blast
qed

lemma quiet_inputs:
  "strike_inputs 100000 [100000] None None quiet_grid_calls quiet_grid_puts =
     Inr (Python_float (1/2), Python_float (1/2), Some 1200, Some 1100)"
  by (simp add: strike_inputs_def quiet_grid_calls_def quiet_grid_puts_def)

lemma no_ticker_no_price:
  "price_option (\<lambda>name. None) now ''SOL_USDC'' expiry_code strike ''call'' iv [] = None"
  "price_option (\<lambda>name. None) now ''SOL_USDC'' expiry_code strike ''put'' iv [] = None"
  "price_option (\<lambda>name. None) now ''BTC'' expiry_code strike ''call'' iv [] = None"
  "price_option (\<lambda>name. None) now ''BTC'' expiry_code strike ''put'' iv [] = None"
  by (auto simp: price_option_def resolve_future_price_def get_underlying_price_def lower_names
      lower_BTC dated_currencies_def create_synthetic_future_price_def select_short
      split: sum.splits)

text \<open>Witness for C3: no ticker answers; SOL_USDC raises, BTC has an absent cell.\<close>

theorem absent_price_in_process_strike_witness:
  "strike_inputs 100000 [100000] None None quiet_grid_calls quiet_grid_puts =
     Inr (Python_float (1/2), Python_float (1/2), Some 1200, Some 1100) \<and>
   price_option (\<lambda>name. None) 0 ''SOL_USDC'' ''10JAN25'' 100000 ''call'' (Python_float (1/2)) []
     = None \<and>
   lower ''SOL_USDC'' \<notin> set [''eth'', ''btc''] \<and>
   process_strike (\<lambda>name. None) 0 ''SOL_USDC'' 100000 ''10JAN25'' [100000] None None
     quiet_grid_calls quiet_grid_puts (Some 100000) [] = Inl TypeError \<and>
   price_option (\<lambda>name. None) 0 ''BTC'' ''10JAN25'' 100000 ''call'' (Python_float (1/2)) []
     = None \<and>
   lower ''BTC'' \<in> set [''eth'', ''btc''] \<and>
   (\<exists>row. process_strike (\<lambda>name. None) 0 ''BTC'' 100000 ''10JAN25'' [100000] None None
            quiet_grid_calls quiet_grid_puts (Some 100000) [] = Inr row \<and>
          call_mark_price row = None)"
proof -
  have a: "lower ''SOL_USDC'' \<notin> set [''eth'', ''btc'']" by (simp add: lower_names)
  have b: "lower ''BTC'' \<in> set [''eth'', ''btc'']" by (simp add: lower_BTC)
  have c: "price_option (\<lambda>name. None) 0 ''SOL_USDC'' ''10JAN25'' 100000 ''call''
             (Python_float (1/2)) [] = None"
    and d: "price_option (\<lambda>name. None) 0 ''BTC'' ''10JAN25'' 100000 ''call''
             (Python_float (1/2)) [] = None"
    by (rule no_ticker_no_price)+
  have "process_strike (\<lambda>name. None) 0 ''SOL_USDC'' 100000 ''10JAN25'' [100000] None None
          quiet_grid_calls quiet_grid_puts (Some 100000) [] = Inl TypeError"
    using absent_price_in_process_strike [OF quiet_inputs disjI1 [OF c], of "Some 100000"] a
    by blast
  moreover have "\<exists>row. process_strike (\<lambda>name. None) 0 ''BTC'' 100000 ''10JAN25'' [100000] None None
            quiet_grid_calls quiet_grid_puts (Some 100000) [] = Inr row \<and>
          call_mark_price row = None"
    using absent_price_in_process_strike [OF quiet_inputs disjI1 [OF d], of "Some 100000"] b d
    by blast
  ultimately show ?thesis
    using quiet_inputs a b c d by blast
qed

text \<open>The same at the level of the run: the SOL_USDC run is aborted in its first cycle and
  saves nothing, the BTC run saves a row of absent prices.\<close>

lemma py_int_1: "py_int 1 = 1"
  by (simp add: py_int_def)

lemma quiet_cycle:
  "run_cycle quiet_world k currency expiry_code [100000] [100000] False [] =
     (case process_strike (\<lambda>name. None) 0 currency 100000 expiry_code [100000] None None
             quiet_grid_calls quiet_grid_puts (Some 100000) [] of
        Inl e \<Rightarrow> Inl e
      | Inr row \<Rightarrow> Inr [(100000, row)])"
  using quiet_inputs
  by (simp add: run_cycle_def quiet_world_def process_strikes_def quiet_grid_calls_def
      quiet_grid_puts_def split: sum.splits)

lemma quiet_run:
  "upper currency \<in> set supported_currencies \<Longrightarrow>
   main quiet_world currency expiry_code 1 1 [100000] =
     run_cycles (\<lambda>k. run_cycle quiet_world k currency expiry_code [100000] [100000] False [])
       [Suc 0] []"
  using main_loop_cycles [OF quiet_grid quiet_futures divide_1_1, of currency expiry_code "[100000]"]
  by (simp add: main_supported py_int_1)

lemma quiet_run_sol:
  "main quiet_world ''SOL_USDC'' ''10JAN25'' 1 1 [100000] = (Some TypeError, [])"
proof -
  have a: "lower ''SOL_USDC'' \<notin> set [''eth'', ''btc'']" by (simp add: lower_names)
  have s: "upper ''SOL_USDC'' \<in> set supported_currencies"
    by (simp add: upper_names supported_currencies_def)
  have "process_strike (\<lambda>name. None) 0 ''SOL_USDC'' 100000 ''10JAN25'' [100000] None None
     quiet_grid_calls quiet_grid_puts (Some 100000) [] = Inl TypeError"
    using process_strike_other [OF quiet_inputs a] no_ticker_no_price(1) by blast
  then show ?thesis
    by (simp add: quiet_run [OF s] quiet_cycle)
qed

lemma quiet_btc_row:
  "process_strike (\<lambda>name. None) 0 ''BTC'' 100000 ''10JAN25'' [100000] None None
     quiet_grid_calls quiet_grid_puts (Some 100000) [] =
       Inr \<lparr>call_mark_price = None, deribit_call_mark_price = Some 1200,
            put_mark_price = None, deribit_put_mark_price = Some 1100\<rparr>"
proof -
  have b: "lower ''BTC'' \<in> set [''eth'', ''btc'']" by (simp add: lower_BTC)
  show ?thesis
    using process_strike_eth_btc [OF quiet_inputs b, of "\<lambda>name. None" 0 "''10JAN25''" "Some 100000" "[]"]
    by (simp add: no_ticker_no_price normalize_usd_price_to_currency_def)
qed

lemma quiet_run_btc:
  "main quiet_world ''BTC'' ''10JAN25'' 1 1 [100000] =
     (None, [[(100000, \<lparr>call_mark_price = None, deribit_call_mark_price = Some 1200,
                         put_mark_price = None, deribit_put_mark_price = Some 1100\<rparr>)]])"
  by (simp add: quiet_run [OF btc_supported] quiet_cycle quiet_btc_row)

text \<open>
  The rounding of the quotient shows in the number of cycles: with a duration of
  \<open>2 ^ 54 - 1\<close> and an interval of \<open>2 ^ 54\<close> the quotient is below one and the run
  has one cycle all the same.
\<close>

lemma rounded_quotient_runs_a_cycle:
  "main quiet_world ''BTC'' ''10JAN25'' (2 ^ 54 - 1) (2 ^ 54) [100000] =
     (None, [[(100000, \<lparr>call_mark_price = None, deribit_call_mark_price = Some 1200,
                         put_mark_price = None, deribit_put_mark_price = Some 1100\<rparr>)]])"
  using main_loop_cycles [OF quiet_grid quiet_futures divide_rounds_up, of "''BTC''" "''10JAN25''"
      "[100000]"]
  by (simp add: main_supported btc_supported py_int_1 quiet_cycle quiet_btc_row)

section \<open>The implied-volatility curve at its knots\<close>

lemma strictly_increasing_sorted_wrt: "strictly_increasing xs = sorted_wrt (<) xs"
  by (induction xs rule: strictly_increasing.induct) (auto intro: order.strict_trans)






lemma sorted_keys_increasing:
  assumes "distinct (map fst d)"
  shows "strictly_increasing (sorted_strikes d)"
proof -
  have "distinct d" "inj_on fst (set d)"
    using assms by (simp_all add: distinct_map)
  then have "distinct (map fst (sort_key fst d))"
    by (simp add: distinct_map)
  moreover have "sorted (map fst (sort_key fst d))" by simp
  ultimately show ?thesis
    by (simp add: sorted_strikes_def strictly_increasing_sorted_wrt strict_sorted_iff)
qed

lemma iv_interpolator_built:
  assumes "distinct (map fst d)" and "2 \<le> length d"
  shows "iv_interpolator d =
           Inr (hermite_eval (sorted_strikes d) (sorted_vols d)
                  (find_derivatives (sorted_strikes d) (sorted_vols d)))"
  using sorted_keys_increasing [OF assms(1)] assms(2)
  by (simp add: iv_interpolator_def PchipInterpolator_def Let_def sorted_strikes_def
      sorted_vols_def)







subsection \<open>Two quotes with exact arithmetic\<close>

text \<open>The doubles of the examples, by their 53 bits and their exponents.\<close>

lemma is_double_examples:
  "is_double 1" "is_double 2" "is_double 8" "is_double 10" "is_double 100" "is_double 1000"
  "is_double (1 / 2)" "is_double (1 / 4)" "is_double (- (1 / 4))" "is_double (- (1 / 32))"
  "is_double (- (1 / 16))"
  using is_double_dyadic [of "2 ^ 52" "- 52"] is_double_dyadic [of "2 ^ 52" "- 51"]
    is_double_dyadic [of "2 ^ 52" "- 49"] is_double_dyadic [of 5629499534213120 "- 49"]
    is_double_dyadic [of 7036874417766400 "- 46"] is_double_dyadic [of 8796093022208000 "- 43"]
    is_double_dyadic [of "2 ^ 52" "- 53"] is_double_dyadic [of "2 ^ 52" "- 54"]
    is_double_dyadic [of "- (2 ^ 52)" "- 54"] is_double_dyadic [of "- (2 ^ 52)" "- 57"]
    is_double_dyadic [of "- (2 ^ 52)" "- 56"]
  by (simp_all add: powr_minus_divide)


lemmas to_double_examples = is_double_examples [THEN to_double_exact]






subsection \<open>The quotes of 0.3 at 100 and of 0.1 at 110\<close>
















subsection \<open>A cubic that is not finite\<close>

text \<open>
  Two volatilities whose difference is beyond the doubles: the slope is an infinity,
  its product with the offset 0 is not a number, and the curve has no number at the
  first sampled strike either.
\<close>

lemma overflow_breaks_first_knot:
  "is_double half_range \<and> is_double (- half_range) \<and>
   \<not> finite_cubic (curve_coefficients steep_knots 0) \<and>
   (\<exists>f. iv_interpolator steep_knots = Inr f \<and> f 100 = NaN)"
proof -
  have a: "is_double half_range" "is_double (- half_range)"
    using is_double_dyadic [of "2 ^ 52" 971] is_double_dyadic [of "- (2 ^ 52)" 971]
    by (simp_all add: half_range_def powr_numeral flip: power_add)
  have "round_double (half_range + half_range) = 2 ^ 1024"
    using round_double_dyadic [of "2 ^ 52" 972]
    by (simp add: half_range_def powr_numeral flip: power_add)
  then have o: "to_double (half_range + half_range) = PInf"
    by (simp add: to_double_def)
  have s: "sorted_strikes steep_knots = [100, 101]"
    "sorted_vols steep_knots = [- half_range, half_range]"
    by (simp_all add: sorted_strikes_def sorted_vols_def steep_knots_def)
  have one: "dsub (Fin 101) (Fin 100) = Fin 1"
    by (simp add: dsub_def fsub_def to_double_examples)
  have inf: "dsub (Fin half_range) (Fin (- half_range)) = PInf"
    using o by (simp add: dsub_def fsub_def)
  have q: "ddiv PInf (Fin 1) = PInf" "dadd PInf PInf = PInf" "dmul (Fin 2) PInf = PInf"
    "dsub PInf PInf = NaN" "ddiv NaN (Fin 1) = NaN" "dsub NaN NaN = NaN"
    "dmul PInf (Fin 0) = NaN" "dmul NaN (Fin 0) = NaN" "dmul NaN (Fin 1) = NaN"
    "dadd (Fin (- half_range)) NaN = NaN" "dadd NaN NaN = NaN"
    by (simp_all add: ddiv_def dadd_def dmul_def dsub_def fsub_def signed_inf_def)
  have dk: "find_derivatives [100, 101] [- half_range, half_range] = [PInf, PInf]"
    by (simp add: find_derivatives_def secants_def spacings_def Let_def one inf q)
  have c: "curve_coefficients steep_knots 0 = (NaN, NaN, PInf, Fin (- half_range))"
    by (simp add: curve_coefficients_def s dk hermite_coefficients_def Let_def one inf q)
  have d: "distinct (map fst steep_knots)" and l: "2 \<le> length steep_knots"
    by (simp_all add: steep_knots_def)
  have "hermite_eval [100, 101] [- half_range, half_range] [PInf, PInf] 100 = NaN"
    using c
    by (simp add: curve_coefficients_def s dk hermite_eval_def evaluate_poly1_def Let_def
        dsub_self dmul_0 dmul_1 dadd_0 a q)
  then have "\<exists>f. iv_interpolator steep_knots = Inr f \<and> f 100 = NaN"
    using iv_interpolator_built [OF d l] by (simp add: s dk)
  then show ?thesis
    using a c by (simp add: finite_cubic_def)
qed

section \<open>A curve from fewer than two strikes\<close>

lemma iv_interpolator_short: "length d < 2 \<Longrightarrow> iv_interpolator d = Inl ValueError"
  by (simp add: iv_interpolator_def PchipInterpolator_def)

lemma iv_interpolator_error: "iv_interpolator d = Inl e \<Longrightarrow> e = ValueError"
  by (auto simp: iv_interpolator_def PchipInterpolator_def Let_def split: if_splits)

lemma run_cycle_short:
  assumes "w_grid w k = Inr (call_dict, put_dict)"
    and "length call_dict < 2 \<or> length put_dict < 2"
  shows "run_cycle w k currency expiry_code strikes standard_strikes True existing_futures =
           Inl ValueError"
proof (cases "iv_interpolator call_dict")
  case (Inl e)
  then show ?thesis
    using assms(1) iv_interpolator_error [OF Inl] by (simp add: run_cycle_def)
next
  case (Inr cf)
  then have "\<not> length call_dict < 2" using iv_interpolator_short [of call_dict] by auto
  then have "iv_interpolator put_dict = Inl ValueError"
    using assms(2) iv_interpolator_short by blast
  then show ?thesis
    using assms(1) Inr by (simp add: run_cycle_def)
qed

text \<open>Without the flag a cycle builds no curve, and none of its tasks raises a \<open>ValueError\<close>.\<close>

lemma run_cycle_no_curve:
  assumes "w_grid w k = Inr (call_dict, put_dict)"
  shows "run_cycle w k currency expiry_code strikes standard_strikes False existing_futures =
           process_strikes
             (\<lambda>strike. strike_inputs strike standard_strikes None None call_dict put_dict)
             (\<lambda>strike. process_strike (w_ticker w k) (w_now w k) currency strike expiry_code
                          standard_strikes None None call_dict put_dict (w_index w k)
                          existing_futures)
             strikes"
  using assms by (simp add: run_cycle_def)

lemma strike_inputs_error:
  "strike_inputs strike standard_strikes call_iv_fn put_iv_fn calls_strike_iv puts_strike_iv = Inl e
   \<Longrightarrow> e = KeyError \<or> e = TypeError"
  by (auto simp: strike_inputs_def split: if_splits option.splits prod.splits)

lemma process_strike_error:
  "process_strike tk now currency strike expiry_code standard_strikes call_iv_fn put_iv_fn
     calls_strike_iv puts_strike_iv index_price existing_futures = Inl e
   \<Longrightarrow> e = KeyError \<or> e = TypeError"
  by (auto simp: process_strike_def round_price_def Let_def dest: strike_inputs_error
      split: sum.splits prod.splits if_splits option.splits)

lemma first_input_error_mem:
  "first_input_error inputs strikes = Some e \<Longrightarrow> \<exists>strike\<in>set strikes. inputs strike = Inl e"
  by (induction strikes) (auto split: sum.splits)

lemma collect_rows_error:
  "collect_rows task strikes rows = Inl e \<Longrightarrow> \<exists>strike\<in>set strikes. task strike = Inl e"
  by (induction strikes arbitrary: rows) (auto split: sum.splits)

lemma process_strikes_error:
  "process_strikes inputs task strikes = Inl e \<Longrightarrow>
   (\<exists>strike\<in>set strikes. inputs strike = Inl e) \<or> (\<exists>strike\<in>set strikes. task strike = Inl e)"
  by (auto simp: process_strikes_def split: option.splits
      dest: first_input_error_mem collect_rows_error)

lemma run_cycle_no_curve_error:
  assumes "w_grid w k = Inr (call_dict, put_dict)"
  shows "run_cycle w k currency expiry_code strikes standard_strikes False existing_futures
           \<noteq> Inl ValueError"
proof
  assume "run_cycle w k currency expiry_code strikes standard_strikes False existing_futures
            = Inl ValueError"
  then have "process_strikes
             (\<lambda>strike. strike_inputs strike standard_strikes None None call_dict put_dict)
             (\<lambda>strike. process_strike (w_ticker w k) (w_now w k) currency strike expiry_code
                          standard_strikes None None call_dict put_dict (w_index w k)
                          existing_futures)
             strikes = Inl ValueError"
    by (simp add: run_cycle_no_curve [OF assms])
  from process_strikes_error [OF this] show False
    by (auto dest: strike_inputs_error process_strike_error)
qed

text \<open>
  Claim C7, as amended. Fewer than two strikes make the curve construction raise a
  \<open>ValueError\<close>; there is no fallback curve. The construction runs inside a cycle,
  on the grid fetched in that cycle, and only under the flag that \<open>main_loop\<close> sets
  when some requested strike is off the grid fetched before the loop: under the flag
  the cycle ends with the \<open>ValueError\<close>, nothing catches it, and the run ends in that
  cycle with what the earlier cycles saved; without the flag the cycle builds no curve,
  runs its tasks and raises no \<open>ValueError\<close>, however short the grid.
\<close>

theorem short_grid_aborts_in_cycle:
  assumes "w_grid w k = Inr (call_dict, put_dict)"
    and "length call_dict < 2 \<or> length put_dict < 2"
  shows "(length call_dict < 2 \<longrightarrow> iv_interpolator call_dict = Inl ValueError) \<and>
         (length put_dict < 2 \<longrightarrow> iv_interpolator put_dict = Inl ValueError) \<and>
         run_cycle w k currency expiry_code strikes standard_strikes True existing_futures =
           Inl ValueError \<and>
         run_cycle w k currency expiry_code strikes standard_strikes False existing_futures =
           process_strikes
             (\<lambda>strike. strike_inputs strike standard_strikes None None call_dict put_dict)
             (\<lambda>strike. process_strike (w_ticker w k) (w_now w k) currency strike expiry_code
                          standard_strikes None None call_dict put_dict (w_index w k)
                          existing_futures)
             strikes \<and>
         run_cycle w k currency expiry_code strikes standard_strikes False existing_futures
           \<noteq> Inl ValueError \<and>
         (\<forall>earlier later saved out.
            (\<forall>j\<in>set earlier.
               run_cycle w j currency expiry_code strikes standard_strikes True existing_futures =
                 Inr (out j)) \<longrightarrow>
            run_cycles
              (\<lambda>j. run_cycle w j currency expiry_code strikes standard_strikes True existing_futures)
              (earlier @ k # later) saved =
            (Some ValueError, saved @ map out earlier)) \<and>
         (\<forall>g fs t1 t2 q.
            w_grid w 0 = Inr g \<and> w_futures w = Inr fs \<and> int_true_divide t1 t2 = Inr q \<longrightarrow>
            main_loop w currency expiry_code t1 t2 strikes =
              run_cycles
                (\<lambda>j. run_cycle w j currency expiry_code strikes (map fst (fst g))
                        (\<exists>strike\<in>set strikes. strike \<notin> set (map fst (fst g))) fs)
                [1..<Suc (nat (py_int q))] [])"
proof -
  have c: "run_cycle w k currency expiry_code strikes standard_strikes True existing_futures =
           Inl ValueError"
    using run_cycle_short [OF assms] .
  have "run_cycles
      (\<lambda>j. run_cycle w j currency expiry_code strikes standard_strikes True existing_futures)
      (earlier @ k # later) saved = (Some ValueError, saved @ map out earlier)"
    if "\<forall>j\<in>set earlier.
         run_cycle w j currency expiry_code strikes standard_strikes True existing_futures =
           Inr (out j)" for earlier later saved out
    using run_cycles_abort [of earlier
        "\<lambda>j. run_cycle w j currency expiry_code strikes standard_strikes True existing_futures"
        out k ValueError later saved] that c by simp
  moreover have "main_loop w currency expiry_code t1 t2 strikes =
              run_cycles
                (\<lambda>j. run_cycle w j currency expiry_code strikes (map fst (fst g))
                        (\<exists>strike\<in>set strikes. strike \<notin> set (map fst (fst g))) fs)
                [1..<Suc (nat (py_int q))] []"
    if "w_grid w 0 = Inr g \<and> w_futures w = Inr fs \<and> int_true_divide t1 t2 = Inr q"
    for g fs t1 t2 q
  proof -
    have "(set strikes - set (map fst (fst g)) \<noteq> {}) =
            (\<exists>strike\<in>set strikes. strike \<notin> set (map fst (fst g)))"
      by blast
    then show ?thesis
      using main_loop_cycles [of w g fs t1 t2 q currency expiry_code strikes] that by simp
  qed
  ultimately show ?thesis
    using c iv_interpolator_short run_cycle_no_curve [OF assms(1)]
      run_cycle_no_curve_error [OF assms(1)]
    by blast
qed

lemma thin_grid_0:
  "w_grid thin_world 0 = Inr ([(50000, (55/100, 1200)), (51000, (50/100, 900))],
                              [(50000, (55/100, 300)), (51000, (50/100, 600))])"
  by (simp add: thin_world_def)

lemma thin_grid_1:
  "w_grid thin_world (Suc 0) = Inr ([(50000, (55/100, 1200)), (51000, (50/100, 900))],
                              [(50000, (55/100, 300)), (51000, (50/100, 600))])"
  by (simp add: thin_world_def)

lemma thin_grid_2:
  "w_grid thin_world 2 = Inr ([(50000, (55/100, 1200))], [(50000, (55/100, 300))])"
  by (simp add: thin_world_def)

lemma thin_futures: "w_futures thin_world = Inr []"
  by (simp add: thin_world_def)

lemma two_cycles: "[1..<Suc (nat (py_int 2))] = [Suc 0, 2]"
  by (simp add: py_int_def upt_rec)

lemma thin_cycle_1:
  "run_cycle thin_world (Suc 0) ''BTC'' ''10JAN25'' [52000] [50000, 51000] True [] =
     Inr [(52000, absent_row)]"
proof -
  have b: "lower ''BTC'' \<in> set [''eth'', ''btc'']" by (simp add: lower_BTC)
  have i: "strike_inputs 52000 [50000, 51000] (Some cf) (Some pf) c p =
             Inr (Numpy_float (cf 52000), Numpy_float (pf 52000), None, None)" for cf pf c p
    by (simp add: strike_inputs_def)
  have p: "process_strike (\<lambda>name. None) 0 ''BTC'' 52000 ''10JAN25'' [50000, 51000]
             (Some cf) (Some pf) c p (Some 100000) [] = Inr absent_row" for cf pf c p
    using process_strike_eth_btc [OF i b, where tk = "\<lambda>name. None" and now = 0
        and expiry_code = "''10JAN25''" and index_price = "Some 100000" and existing_futures = "[]"]
    by (simp add: no_ticker_no_price normalize_usd_price_to_currency_def absent_row_def)
  have c: "\<exists>f. iv_interpolator [(50000, (55/100, 1200)), (51000, (50/100, 900))] = Inr f"
    by (simp add: iv_interpolator_def PchipInterpolator_def Let_def)
  have d: "\<exists>f. iv_interpolator [(50000, (55/100, 300)), (51000, (50/100, 600))] = Inr f"
    by (simp add: iv_interpolator_def PchipInterpolator_def Let_def)
  from c d show ?thesis
    by (auto simp: run_cycle_def thin_grid_1 p i process_strikes_def thin_world_def)
qed

text \<open>
  A strike of the grid in the cycle of one quote: the flag is not set, no curve is
  built and the cycle returns its row.
\<close>

lemma thin_cycle_2_on_grid:
  "run_cycle thin_world 2 ''BTC'' ''10JAN25'' [50000] [50000, 51000] False [] =
     Inr [(50000, \<lparr>call_mark_price = None, deribit_call_mark_price = Some 1200,
                    put_mark_price = None, deribit_put_mark_price = Some 300\<rparr>)]"
proof -
  have b: "lower ''BTC'' \<in> set [''eth'', ''btc'']" by (simp add: lower_BTC)
  have i: "strike_inputs 50000 [50000, 51000] None None [(50000, (55/100, 1200))]
             [(50000, (55/100, 300))] =
             Inr (Python_float (55/100), Python_float (55/100), Some 1200, Some 300)"
    by (simp add: strike_inputs_def)
  have p: "process_strike (\<lambda>name. None) 0 ''BTC'' 50000 ''10JAN25'' [50000, 51000]
             None None [(50000, (55/100, 1200))] [(50000, (55/100, 300))] (Some 100000) [] =
           Inr \<lparr>call_mark_price = None, deribit_call_mark_price = Some 1200,
                put_mark_price = None, deribit_put_mark_price = Some 300\<rparr>"
    using process_strike_eth_btc [OF i b, where tk = "\<lambda>name. None" and now = 0
        and expiry_code = "''10JAN25''" and index_price = "Some 100000" and existing_futures = "[]"]
    by (simp add: no_ticker_no_price normalize_usd_price_to_currency_def)
  show ?thesis
    using p i by (simp add: run_cycle_def thin_grid_2 process_strikes_def thin_world_def)
qed

text \<open>
  Witness for C7: two quotes in cycle 1, one quote in cycle 2. With the strike 52000,
  off the grid, the second cycle raises; with the strike 50000 it returns its row.
\<close>

theorem short_grid_aborts_in_cycle_witness:
  "w_grid thin_world 2 = Inr ([(50000, (55/100, 1200))], [(50000, (55/100, 300))]) \<and>
   length [(50000 :: real, (55/100 :: real, 1200 :: real))] < 2 \<and>
   iv_interpolator [(50000, (55/100, 1200))] = Inl ValueError \<and>
   run_cycle thin_world 1 ''BTC'' ''10JAN25'' [52000] [50000, 51000] True [] =
     Inr [(52000, absent_row)] \<and>
   run_cycles (\<lambda>j. run_cycle thin_world j ''BTC'' ''10JAN25'' [52000] [50000, 51000] True [])
     [1, 2] [] = (Some ValueError, [[(52000, absent_row)]]) \<and>
   run_cycle thin_world 2 ''BTC'' ''10JAN25'' [50000] [50000, 51000] False [] \<noteq> Inl ValueError \<and>
   int_true_divide 2 1 = Inr 2 \<and>
   main_loop thin_world ''BTC'' ''10JAN25'' 2 1 [52000] =
     run_cycles (\<lambda>j. run_cycle thin_world j ''BTC'' ''10JAN25'' [52000] [50000, 51000] True [])
       [1, 2] [] \<and>
   main_loop thin_world ''BTC'' ''10JAN25'' 2 1 [50000] =
     run_cycles (\<lambda>j. run_cycle thin_world j ''BTC'' ''10JAN25'' [50000] [50000, 51000] False [])
       [1, 2] []"
proof -
  have s: "length [(50000 :: real, (55/100 :: real, 1200 :: real))] < 2
           \<or> length [(50000 :: real, (55/100 :: real, 300 :: real))] < 2" by simp
  have e: "\<forall>j\<in>set [Suc 0]. run_cycle thin_world j ''BTC'' ''10JAN25'' [52000] [50000, 51000] True []
             = Inr ((\<lambda>j. [(52000, absent_row)]) j)"
    by (simp add: thin_cycle_1)
  note T = short_grid_aborts_in_cycle [OF thin_grid_2 s, where currency = "''BTC''"
      and expiry_code = "''10JAN25''" and standard_strikes = "[50000, 51000]"
      and existing_futures = "[]"]
  note A = T [where strikes = "[52000]"]
  note B = T [where strikes = "[50000]"]
  have 1: "iv_interpolator [(50000, (55/100, 1200))] = Inl ValueError"
    using A by simp
  from A have "\<forall>earlier later saved out.
            (\<forall>j\<in>set earlier.
               run_cycle thin_world j ''BTC'' ''10JAN25'' [52000] [50000, 51000] True [] =
                 Inr (out j)) \<longrightarrow>
            run_cycles
              (\<lambda>j. run_cycle thin_world j ''BTC'' ''10JAN25'' [52000] [50000, 51000] True [])
              (earlier @ 2 # later) saved =
            (Some ValueError, saved @ map out earlier)"
    by blast
  from this [THEN spec, of "[Suc 0]", THEN spec, of "[]", THEN spec, of "[]", THEN spec,
      of "\<lambda>j. [(52000, absent_row)]", THEN mp, OF e]
  have 2: "run_cycles
      (\<lambda>j. run_cycle thin_world j ''BTC'' ''10JAN25'' [52000] [50000, 51000] True [])
      [1, 2] [] = (Some ValueError, [[(52000, absent_row)]])"
    by simp
  have 3: "run_cycle thin_world 2 ''BTC'' ''10JAN25'' [50000] [50000, 51000] False []
             \<noteq> Inl ValueError"
    using B by blast
  from A have "\<forall>g fs t1 t2 q.
            w_grid thin_world 0 = Inr g \<and> w_futures thin_world = Inr fs \<and>
            int_true_divide t1 t2 = Inr q \<longrightarrow>
            main_loop thin_world ''BTC'' ''10JAN25'' t1 t2 [52000] =
              run_cycles
                (\<lambda>j. run_cycle thin_world j ''BTC'' ''10JAN25'' [52000] (map fst (fst g))
                        (\<exists>strike\<in>set [52000]. strike \<notin> set (map fst (fst g))) fs)
                [1..<Suc (nat (py_int q))] []"
    by blast
  from this [THEN spec, THEN spec, THEN spec, THEN spec, THEN spec, THEN mp,
      OF conjI [OF thin_grid_0 conjI [OF thin_futures divide_2_1]], unfolded two_cycles]
  have 4: "main_loop thin_world ''BTC'' ''10JAN25'' 2 1 [52000] =
     run_cycles (\<lambda>j. run_cycle thin_world j ''BTC'' ''10JAN25'' [52000] [50000, 51000] True [])
       [1, 2] []"
    by simp
  from B have "\<forall>g fs t1 t2 q.
            w_grid thin_world 0 = Inr g \<and> w_futures thin_world = Inr fs \<and>
            int_true_divide t1 t2 = Inr q \<longrightarrow>
            main_loop thin_world ''BTC'' ''10JAN25'' t1 t2 [50000] =
              run_cycles
                (\<lambda>j. run_cycle thin_world j ''BTC'' ''10JAN25'' [50000] (map fst (fst g))
                        (\<exists>strike\<in>set [50000]. strike \<notin> set (map fst (fst g))) fs)
                [1..<Suc (nat (py_int q))] []"
    by blast
  from this [THEN spec, THEN spec, THEN spec, THEN spec, THEN spec, THEN mp,
      OF conjI [OF thin_grid_0 conjI [OF thin_futures divide_2_1]], unfolded two_cycles]
  have 5: "main_loop thin_world ''BTC'' ''10JAN25'' 2 1 [50000] =
     run_cycles (\<lambda>j. run_cycle thin_world j ''BTC'' ''10JAN25'' [50000] [50000, 51000] False [])
       [1, 2] []"
    by simp
  show ?thesis
    using 1 2 3 4 5 thin_grid_2 thin_cycle_1 divide_2_1 by simp
qed

text \<open>
  Counterexample to C7 as stated: the run is not aborted before any cycle starts; its
  first cycle completes and is saved, the second one raises.
\<close>

theorem curve_error_after_a_saved_cycle:
  "main thin_world ''BTC'' ''10JAN25'' 2 1 [52000] = (Some ValueError, [[(52000, absent_row)]])"
proof -
  have c2: "run_cycle thin_world 2 ''BTC'' ''10JAN25'' [52000] [50000, 51000] True [] =
              Inl ValueError"
    by (rule run_cycle_short [OF thin_grid_2]) simp
  show ?thesis
    using main_loop_cycles [OF thin_grid_0 thin_futures divide_2_1, of "''BTC''" "''10JAN25''"
        "[52000]", unfolded two_cycles]
    by (simp add: main_supported btc_supported thin_cycle_1 c2)
qed

section \<open>The normal distribution function\<close>

text \<open>
  The series of \<open>gauss_area\<close> converges everywhere, is odd, has the derivative
  \<open>exp (- x\<^sup>2 / 2)\<close> and is bounded; so \<open>Phi\<close> is well defined, strictly increasing,
  lies strictly between 0 and 1, and \<open>Phi (- x) = 1 - Phi x\<close>.
\<close>

lemma gauss_term_bound:
  "norm (gauss_term x n) \<le> \<bar>x\<bar> * (inverse (fact n) * (x\<^sup>2 / 2) ^ n)"
proof -
  have "\<bar>x ^ (2 * n + 1)\<bar> = \<bar>x\<bar> * (x\<^sup>2) ^ n"
    by (simp add: power_mult abs_mult)
  then have n: "norm (gauss_term x n) = \<bar>x\<bar> * (x\<^sup>2) ^ n / (2 ^ n * fact n * real (2 * n + 1))"
    by (simp add: gauss_term_def abs_mult power_abs)
  have "\<bar>x\<bar> * (x\<^sup>2) ^ n / (2 ^ n * fact n * real (2 * n + 1))
          \<le> \<bar>x\<bar> * (x\<^sup>2) ^ n / (2 ^ n * fact n * 1)"
    by (intro divide_left_mono mult_left_mono) (auto simp: mult_pos_pos)
  also have "\<dots> = \<bar>x\<bar> * (inverse (fact n) * (x\<^sup>2 / 2) ^ n)"
    by (simp add: power_divide field_simps)
  finally show ?thesis using n by simp
qed

lemma summable_gauss_term: "summable (gauss_term x)"
proof (rule summable_comparison_test')
  show "summable (\<lambda>n. \<bar>x\<bar> * (inverse (fact n) * (x\<^sup>2 / 2) ^ n))"
    by (intro summable_mult summable_exp)
  show "norm (gauss_term x n) \<le> \<bar>x\<bar> * (inverse (fact n) * (x\<^sup>2 / 2) ^ n)" if "0 \<le> n" for n
    by (rule gauss_term_bound)
qed

lemma gauss_area_minus: "gauss_area (- x) = - gauss_area x"
proof -
  have "gauss_term (- x) n = - gauss_term x n" for n
    by (simp add: gauss_term_def)
  then show ?thesis
    by (simp add: gauss_area_def suminf_minus [OF summable_gauss_term])
qed

lemma Phi_minus: "Phi (- x) = 1 - Phi x"
  by (simp add: Phi_def gauss_area_minus field_simps)

lemma gauss_area_sums: "gauss_term x sums gauss_area x"
  unfolding gauss_area_def by (rule summable_sums [OF summable_gauss_term])

lemma DERIV_gauss_area: "DERIV gauss_area x :> exp (- (x\<^sup>2 / 2))"
proof -
  define c :: "nat \<Rightarrow> real" where
    "c k = (if even k then 0
            else (- 1) ^ ((k - 1) div 2) / (2 ^ ((k - 1) div 2) * fact ((k - 1) div 2) * real k))"
    for k
  have t: "c k * y ^ k = (if even k then 0 else gauss_term y ((k - 1) div 2))" for y k
  proof (cases "even k")
    case True
    then show ?thesis by (simp add: c_def)
  next
    case False
    then obtain n where k: "k = 2 * n + 1" by (auto elim: oddE)
    then show ?thesis by (simp add: c_def gauss_term_def)
  qed
  have s1: "(\<lambda>k. c k * y ^ k) sums gauss_area y" for y
    using sums_if' [OF gauss_area_sums [of y]] by (simp add: t)
  then have eq: "gauss_area = (\<lambda>y. \<Sum>k. c k * y ^ k)"
    by (auto simp: fun_eq_iff dest: sums_unique)
  have dc: "diffs c k * y ^ k =
      (if even k then (- (y\<^sup>2 / 2)) ^ (k div 2) /\<^sub>R fact (k div 2) else 0)" for y k
  proof (cases "even k")
    case True
    then obtain n where k: "k = 2 * n" by (auto elim: evenE)
    have a: "diffs c k = (- 1) ^ n / (2 ^ n * fact n)"
      by (simp add: diffs_def c_def k del: of_nat_Suc)
    have b: "y ^ k = (y\<^sup>2) ^ n" by (simp add: k power_mult)
    have e: "(- (y\<^sup>2 / 2)) ^ n = (- 1) ^ n * (y\<^sup>2) ^ n / 2 ^ n"
      by (simp add: power_minus [of "y\<^sup>2 / 2"] power_divide)
    have "diffs c k * y ^ k = (- 1) ^ n * (y\<^sup>2) ^ n / 2 ^ n / fact n"
      unfolding a b by simp
    also have "\<dots> = (- (y\<^sup>2 / 2)) ^ n / fact n"
      unfolding e ..
    also have "\<dots> = (- (y\<^sup>2 / 2)) ^ (k div 2) /\<^sub>R fact (k div 2)"
    proof -
      have "k div 2 = n" by (simp add: k)
      then show ?thesis by (simp add: field_simps)
    qed
    finally show ?thesis using True by simp
  next
    case False
    then show ?thesis by (simp add: diffs_def c_def)
  qed
  have "(\<lambda>k. if even k then (- (y\<^sup>2 / 2)) ^ (k div 2) /\<^sub>R fact (k div 2)
              else (\<lambda>n. 0) ((k - 1) div 2)) sums (0 + exp (- (y\<^sup>2 / 2)))" for y :: real
    by (rule sums_if [OF sums_zero exp_converges])
  then have s2: "(\<lambda>k. diffs c k * y ^ k) sums exp (- (y\<^sup>2 / 2))" for y
    by (simp add: dc)
  have "((\<lambda>x. \<Sum>n. c n * x ^ n) has_field_derivative (\<Sum>n. diffs c n * x ^ n)) (at x)"
    by (rule termdiffs_strong_converges_everywhere) (rule sums_summable [OF s1])
  then show ?thesis
    using sums_unique [OF s2 [of x]] by (simp add: eq)
qed

lemma gauss_area_0: "gauss_area 0 = 0"
  by (simp add: gauss_area_def gauss_term_def)

lemma gauss_area_strict_mono: "x < y \<Longrightarrow> gauss_area x < gauss_area y"
  by (rule DERIV_pos_imp_increasing [of x y]) (auto intro!: exI DERIV_gauss_area)

lemma exp_gauss_le: "exp (- (t\<^sup>2 / 2)) \<le> 1 / (1 + t\<^sup>2 / 2)" for t :: real
proof -
  have "1 + t\<^sup>2 / 2 \<le> exp (t\<^sup>2 / 2)" by (rule exp_ge_add_one_self)
  moreover have "0 < 1 + t\<^sup>2 / 2" by (simp add: add_pos_nonneg)
  ultimately have "1 / exp (t\<^sup>2 / 2) \<le> 1 / (1 + t\<^sup>2 / 2)"
    by (intro divide_left_mono) (auto simp: mult_pos_pos)
  then show ?thesis by (simp add: exp_minus inverse_eq_divide)
qed

lemma DERIV_arctan_scaled:
  "DERIV (\<lambda>t. sqrt 2 * arctan (t / sqrt 2)) t :> 1 / (1 + t\<^sup>2 / 2)"
proof -
  have "DERIV (\<lambda>t. sqrt 2 * arctan (t / sqrt 2)) t :>
          sqrt 2 * (inverse (1 + (t / sqrt 2)\<^sup>2) * (1 / sqrt 2))"
    by (auto intro!: derivative_eq_intros)
  moreover have "sqrt 2 * (inverse (1 + (t / sqrt 2)\<^sup>2) * (1 / sqrt 2)) = 1 / (1 + t\<^sup>2 / 2)"
    by (simp add: power_divide inverse_eq_divide)
  ultimately show ?thesis by simp
qed

lemma gauss_area_le_arctan:
  assumes "0 \<le> x"
  shows "gauss_area x \<le> sqrt 2 * arctan (x / sqrt 2)"
proof -
  let ?f = "\<lambda>t. sqrt 2 * arctan (t / sqrt 2) - gauss_area t"
  have "?f 0 \<le> ?f x"
  proof (rule DERIV_nonneg_imp_nondecreasing [OF assms])
    fix t :: real
    assume "0 \<le> t" "t \<le> x"
    have "DERIV ?f t :> 1 / (1 + t\<^sup>2 / 2) - exp (- (t\<^sup>2 / 2))"
      by (intro DERIV_diff DERIV_arctan_scaled DERIV_gauss_area)
    moreover have "0 \<le> 1 / (1 + t\<^sup>2 / 2) - exp (- (t\<^sup>2 / 2))"
      using exp_gauss_le [of t] by simp
    ultimately show "\<exists>y. DERIV ?f t :> y \<and> 0 \<le> y" by blast
  qed
  then show ?thesis by (simp add: gauss_area_0)
qed

lemma gauss_area_bounded: "gauss_area x \<le> sqrt 2 * pi"
proof (cases "0 \<le> x")
  case True
  have "arctan (x / sqrt 2) \<le> pi"
    using arctan_ubound [of "x / sqrt 2"] pi_gt_zero by linarith
  then have "sqrt 2 * arctan (x / sqrt 2) \<le> sqrt 2 * pi"
    by (intro mult_left_mono) auto
  then show ?thesis using gauss_area_le_arctan [OF True] by linarith
next
  case False
  then have "gauss_area x < gauss_area 0" by (intro gauss_area_strict_mono) simp
  moreover have "0 \<le> sqrt 2 * pi" by simp
  ultimately show ?thesis unfolding gauss_area_0 by linarith
qed

lemma bdd_above_gauss_area: "bdd_above (range gauss_area)"
  by (rule bdd_aboveI [of _ "sqrt 2 * pi"]) (auto simp: gauss_area_bounded)

lemma gauss_area_less_half: "gauss_area x < gauss_half"
proof -
  have "gauss_area x < gauss_area (x + 1)" by (rule gauss_area_strict_mono) simp
  also have "\<dots> \<le> gauss_half"
    unfolding gauss_half_def by (rule cSup_upper [OF _ bdd_above_gauss_area]) simp
  finally show ?thesis .
qed

lemma gauss_half_pos: "0 < gauss_half"
  using gauss_area_less_half [of 0] by (simp add: gauss_area_0)

lemma Phi_pos: "0 < Phi x"
proof -
  have "- gauss_half < gauss_area x"
    using gauss_area_less_half [of "- x"] by (simp add: gauss_area_minus)
  then have "- 1 < gauss_area x / gauss_half"
    using gauss_half_pos by (simp add: pos_less_divide_eq)
  then show ?thesis by (simp add: Phi_def)
qed

lemma Phi_less_1: "Phi x < 1"
  using Phi_pos [of "- x"] by (simp add: Phi_minus)


section \<open>When the pricing model fails\<close>













end
